theory Spec2Isabelle
  imports Complex_Main
begin

section \<open>Plynk: planar linkage simulation\<close>

text \<open>
  A shallow embedding of the Python package \<^verbatim>\<open>plynk\<close> (geometry.py, joint.py, bar.py,
  driver/*.py, linkage.py).

  Conventions of the embedding:
  \<^item> Python floats are embedded as \<^typ>\<open>real\<close>. Rounding, NaN, infinities and
    \<^verbatim>\<open>OverflowError\<close> are outside the embedding; the exceptions that depend only on the
    mathematical value (\<^verbatim>\<open>math.sqrt\<close> of a negative number, division by zero) are branches
    of the model.
  \<^item> Every exception is a value of the type \<open>error\<close>; a function that can raise returns
    \<open>error + 'a\<close> (\<open>Inl\<close> is the raised exception).
  \<^item> A \<^verbatim>\<open>Joint\<close> is an object with identity that is mutated in place. A joint is referred to by
    its identity (\<open>jid\<close>) and the joint objects live in a heap \<open>jid \<Rightarrow> joint\<close>.
  \<^item> A Python value that is either a tuple \<^verbatim>\<open>(x, y)\<close> or \<^verbatim>\<open>None\<close> is a \<open>point option\<close>.
\<close>

subsection \<open>Exceptions\<close>

type_synonym point = "real \<times> real"
type_synonym jid = nat

datatype error =
    AttributeError
  | ValueError_no_chooser string
  | ValueError_not_in_bar jid
  | ValueError_bar_joints
  | ValueError_bar_segments nat nat
  | ValueError_time real
  | ValueError_bar_reference string string
  | ValueError_driver_reference string string
  | ValueError_math_domain
  | ZeroDivisionError
  | TypeError
  | IndexError
  | KeyError
  | InvalidLinkageError_no_intersection jid jid jid string string
  | InvalidLinkageError_unsolvable "jid set"
  | InvalidLinkageError_distance real string string string

subsection \<open>geometry.py\<close>

text \<open>\<^verbatim>\<open>math.sqrt\<close>: raises \<^verbatim>\<open>ValueError\<close> (math domain error) on a negative argument.\<close>

definition py_sqrt :: "real \<Rightarrow> error + real" where
  "py_sqrt x = (if x < 0 then Inl ValueError_math_domain else Inr (sqrt x))"

text \<open>\<^verbatim>\<open>math.atan2(y, x)\<close>, the angle of the vector \<open>(x, y)\<close> in \<open>(-\<pi>, \<pi>]\<close>.\<close>

definition atan2 :: "real \<Rightarrow> real \<Rightarrow> real" where
  "atan2 y x =
     (if 0 < x then arctan (y / x)
      else if x < 0 \<and> 0 \<le> y then arctan (y / x) + pi
      else if x < 0 \<and> y < 0 then arctan (y / x) - pi
      else if 0 < y then pi / 2
      else if y < 0 then - (pi / 2)
      else 0)"

text \<open>
  \<^verbatim>\<open>math.fmod(x, y)\<close>: the remainder \<open>x - n * y\<close> with \<open>n\<close> the quotient \<open>x / y\<close> truncated
  towards zero, so the result has the sign of \<open>x\<close>; \<^verbatim>\<open>ValueError\<close> when \<open>y\<close> is zero.
\<close>

definition py_trunc :: "real \<Rightarrow> int" where
  "py_trunc r = (if 0 \<le> r then \<lfloor>r\<rfloor> else \<lceil>r\<rceil>)"

definition fmod :: "real \<Rightarrow> real \<Rightarrow> error + real" where
  "fmod x y = (if y = 0 then Inl ValueError_math_domain
               else Inr (x - of_int (py_trunc (x / y)) * y))"

text \<open>
  \<^verbatim>\<open>circular_intersection\<close>: the body of the \<^verbatim>\<open>try\<close> block, statement by statement. The
  \<^verbatim>\<open>except ValueError\<close> clause turns a failing \<^verbatim>\<open>math.sqrt\<close> into the result \<^verbatim>\<open>None\<close>; the
  division by \<open>2 * L_C\<close> raises \<^verbatim>\<open>ZeroDivisionError\<close>, which the clause does not catch.
  Once \<open>2 * L_C\<close> is known to be non-zero the later divisions by \<open>L_C\<close> cannot raise.
\<close>

definition circular_intersection ::
  "point \<Rightarrow> real \<Rightarrow> point \<Rightarrow> real \<Rightarrow> error + (point \<times> point) option" where
  "circular_intersection a_center a_radius b_center b_radius =
     (let (x_A, y_A) = a_center; (x_B, y_B) = b_center in
      case py_sqrt ((x_A - x_B)\<^sup>2 + (y_A - y_B)\<^sup>2) of
        Inl e \<Rightarrow> Inr None
      | Inr L_C \<Rightarrow>
          if 2 * L_C = 0 then Inl ZeroDivisionError
          else
            let b = (b_radius\<^sup>2 - a_radius\<^sup>2 + L_C\<^sup>2) / (2 * L_C) in
            case py_sqrt (b_radius\<^sup>2 - b\<^sup>2) of
              Inl e \<Rightarrow> Inr None
            | Inr h \<Rightarrow>
                let x_P = x_B + b * (x_A - x_B) / L_C;
                    y_P = y_B + b * (y_A - y_B) / L_C;
                    x_1 = x_P + h * (y_B - y_A) / L_C;
                    y_1 = y_P - h * (x_B - x_A) / L_C;
                    x_2 = x_P - h * (y_B - y_A) / L_C;
                    y_2 = y_P + h * (x_B - x_A) / L_C
                in Inr (Some ((x_1, y_1), (x_2, y_2))))"

definition line_angle :: "point \<Rightarrow> point \<Rightarrow> real" where
  "line_angle endpoint1 endpoint2 =
     atan2 (snd endpoint2 - snd endpoint1) (fst endpoint2 - fst endpoint1)"

definition line_extension :: "point \<Rightarrow> point \<Rightarrow> real \<Rightarrow> point" where
  "line_extension endpoint_1 endpoint_2 L =
     (let angle = line_angle endpoint_1 endpoint_2
      in (fst endpoint_2 + L * cos angle, snd endpoint_2 + L * sin angle))"

text \<open>\<^verbatim>\<open>distance\<close>: the argument of the square root is a sum of squares, so it never raises.\<close>

definition distance :: "point \<Rightarrow> point \<Rightarrow> real" where
  "distance point1 point2 =
     sqrt ((fst point1 - fst point2)\<^sup>2 + (snd point1 - snd point2)\<^sup>2)"

subsection \<open>joint.py\<close>

text \<open>
  The chooser is an arbitrary Python callable of two arguments; it is embedded as a
  pure, total function on Python location values.
\<close>

record joint =
  label :: string
  location :: "point option"
  fixed :: bool
  chooser :: "(point option \<Rightarrow> point option \<Rightarrow> point option) option"

text \<open>\<^verbatim>\<open>Joint.__setattr__\<close> for the attribute \<^verbatim>\<open>location\<close>: the guard on fixed joints.\<close>

definition setattr_location :: "joint \<Rightarrow> point option \<Rightarrow> error + joint" where
  "setattr_location self val =
     (if fixed self then Inl AttributeError else Inr (self\<lparr>location := val\<rparr>))"

text \<open>
  \<^verbatim>\<open>Joint.set_location(location1, location2 = None)\<close>. The single-candidate call is
  \<open>set_location self location1 None\<close>.
\<close>

definition set_location :: "joint \<Rightarrow> point option \<Rightarrow> point option \<Rightarrow> error + joint" where
  "set_location self location1 location2 =
     (if location2 = None then setattr_location self location1
      else case chooser self of
             Some c \<Rightarrow> setattr_location self (c location1 location2)
           | None \<Rightarrow> Inl (ValueError_no_chooser (label self)))"

subsection \<open>bar.py\<close>

record bar =
  bar_label :: string
  joints :: "jid list"
  segment_lengths :: "real list"

text \<open>The constructor \<^verbatim>\<open>Bar(label, joints, segment_lengths)\<close> with its two checks.\<close>

definition Bar :: "string \<Rightarrow> jid list \<Rightarrow> real list \<Rightarrow> error + bar" where
  "Bar lbl js segs =
     (if \<not> length js \<ge> 2 then Inl ValueError_bar_joints
      else if \<not> length segs = length js - 1
        then Inl (ValueError_bar_segments (length segs) (length js - 1))
      else Inr \<lparr>bar_label = lbl, joints = js, segment_lengths = segs\<rparr>)"

text \<open>
  The loop of \<^verbatim>\<open>Bar.origin_distance\<close> over \<^verbatim>\<open>enumerate(self.joints)\<close>: it stops at the first
  element equal to the joint; \<^verbatim>\<open>self.segment_lengths[index]\<close> raises \<^verbatim>\<open>IndexError\<close> past the
  end of the list.
\<close>

fun origin_distance_loop :: "real list \<Rightarrow> jid \<Rightarrow> (nat \<times> jid) list \<Rightarrow> real \<Rightarrow> error + real" where
  "origin_distance_loop segs joint [] acc = Inr acc"
| "origin_distance_loop segs joint ((index, element) # rest) acc =
     (if joint = element then Inr acc
      else if index < length segs
        then origin_distance_loop segs joint rest (acc + segs ! index)
      else Inl IndexError)"

definition origin_distance :: "bar \<Rightarrow> jid \<Rightarrow> error + real" where
  "origin_distance self joint =
     (if joint \<notin> set (joints self) then Inl (ValueError_not_in_bar joint)
      else origin_distance_loop (segment_lengths self) joint (enumerate 0 (joints self)) 0)"

definition joint_distance :: "bar \<Rightarrow> jid \<Rightarrow> jid \<Rightarrow> error + real" where
  "joint_distance self joint1 joint2 =
     (case origin_distance self joint1 of
        Inl e \<Rightarrow> Inl e
      | Inr d1 \<Rightarrow>
          (case origin_distance self joint2 of
             Inl e \<Rightarrow> Inl e
           | Inr d2 \<Rightarrow> Inr \<bar>d1 - d2\<bar>))"

subsection \<open>driver/*.py\<close>

text \<open>
  The three subclasses of \<^verbatim>\<open>Driver\<close> are the variants of \<open>driver_kind\<close>, each with the
  attributes its constructor adds (\<open>Crank length starting_angle\<close>,
  \<open>Rocker length starting_angle ending_angle\<close>, \<open>Slider endpoint\<close>); the attributes of
  the base class are the fields of the record. A driver is never mutated by the operations embedded here, so it is embedded
  by value; \<open>drv_id\<close> stands for the identity of the object.
\<close>

datatype driver_kind =
    Crank real real
  | Rocker real real real
  | Slider point

record driver =
  drv_id :: nat
  drv_label :: string
  drv_location :: point
  attachment_joint :: jid
  speed :: real
  kind :: driver_kind

fun point_for_time_kind :: "driver_kind \<Rightarrow> point \<Rightarrow> real \<Rightarrow> point" where
  "point_for_time_kind (Crank len sa) loc time =
     (fst loc + len * cos (sa + time * 2 * pi), snd loc + len * sin (sa + time * 2 * pi))"
| "point_for_time_kind (Rocker len sa ea) loc time =
     (let angle = (if time < 0.5 then sa + time * 2 * (ea - sa)
                   else ea - (time - 0.5) * 2 * (ea - sa));
          angle = (angle / 360.0) * 2 * pi
      in (fst loc + len * cos angle, snd loc + len * sin angle))"
| "point_for_time_kind (Slider ep) loc time =
     (let len = distance loc ep;
          angle = line_angle loc ep;
          travel = (if time < 0.5 then time * 2 * len
                    else len - (time - 0.5) * 2 * len)
      in (fst loc + travel * cos angle, snd loc + travel * sin angle))"

definition point_for_time :: "driver \<Rightarrow> real \<Rightarrow> point" where
  "point_for_time self time = point_for_time_kind (kind self) (drv_location self) time"

text \<open>
  \<^verbatim>\<open>Driver.update_attachment_point\<close>: the assignment to \<^verbatim>\<open>attachment_joint.location\<close> goes
  through \<^verbatim>\<open>Joint.__setattr__\<close>.
\<close>

definition update_attachment_point :: "driver \<Rightarrow> real \<Rightarrow> (jid \<Rightarrow> joint) \<Rightarrow> error + (jid \<Rightarrow> joint)" where
  "update_attachment_point self time heap =
     (case fmod (time * speed self) 1.0 of
        Inl e \<Rightarrow> Inl e
      | Inr t' \<Rightarrow>
          (case setattr_location (heap (attachment_joint self)) (Some (point_for_time self t')) of
             Inl e \<Rightarrow> Inl e
           | Inr j' \<Rightarrow> Inr (heap(attachment_joint self := j'))))"

subsection \<open>linkage.py: the compiled pipeline\<close>

type_synonym heap = "jid \<Rightarrow> joint"

text \<open>
  The functions that \<^verbatim>\<open>generate_simulation_function\<close> collects in \<^verbatim>\<open>function_list\<close> are
  closures; a closure is embedded as the data it captures: the bound method
  \<^verbatim>\<open>driver.update_attachment_point\<close>, the \<^verbatim>\<open>solver\<close> of \<^verbatim>\<open>solver_for_intersection\<close> with
  \<open>unknown_joint\<close>, \<open>a\<close>, \<open>b\<close>, \<open>a_bar\<close>, \<open>b_bar\<close>, and the \<^verbatim>\<open>solver\<close> of
  \<^verbatim>\<open>solver_for_joint_on_bar_given_joints\<close> with \<open>joint\<close>, \<open>bar\<close>, \<open>joints\<close>.
  Bars are not mutated by the operations embedded here and are embedded by value.
\<close>

datatype step =
    Driver_step driver
  | Intersection_step jid jid jid bar bar
  | Extension_step jid bar "jid list"

text \<open>
  Running one function of the list on the heap of joints. The arguments of a call are
  evaluated left to right before the call, so \<^verbatim>\<open>joint_distance\<close> and \<^verbatim>\<open>origin_distance\<close>
  raise before a location that is \<^verbatim>\<open>None\<close> is unpacked or subscripted (\<^verbatim>\<open>TypeError\<close>).
\<close>

fun run_step :: "step \<Rightarrow> real \<Rightarrow> heap \<Rightarrow> error + heap" where
  "run_step (Driver_step d) time heap = update_attachment_point d time heap"
| "run_step (Intersection_step unknown_joint a b a_bar b_bar) time heap =
     (case joint_distance a_bar unknown_joint a of
        Inl e \<Rightarrow> Inl e
      | Inr a_radius \<Rightarrow>
     (case joint_distance b_bar unknown_joint b of
        Inl e \<Rightarrow> Inl e
      | Inr b_radius \<Rightarrow>
     (case location (heap a) of
        None \<Rightarrow> Inl TypeError
      | Some a_center \<Rightarrow>
     (case location (heap b) of
        None \<Rightarrow> Inl TypeError
      | Some b_center \<Rightarrow>
     (case circular_intersection a_center a_radius b_center b_radius of
        Inl e \<Rightarrow> Inl e
      | Inr None \<Rightarrow>
          Inl (InvalidLinkageError_no_intersection unknown_joint a b
                 (bar_label a_bar) (bar_label b_bar))
      | Inr (Some (loc1, loc2)) \<Rightarrow>
          (case set_location (heap unknown_joint) (Some loc1) (Some loc2) of
             Inl e \<Rightarrow> Inl e
           | Inr j' \<Rightarrow> Inr (heap(unknown_joint := j'))))))))"
| "run_step (Extension_step joint bar js) time heap =
     (case js of
        j0 # j1 # rest \<Rightarrow>
          (case origin_distance bar joint of
             Inl e \<Rightarrow> Inl e
           | Inr d \<Rightarrow>
          (case origin_distance bar j1 of
             Inl e \<Rightarrow> Inl e
           | Inr d1 \<Rightarrow>
          (case location (heap j0) of
             None \<Rightarrow> Inl TypeError
           | Some p0 \<Rightarrow>
          (case location (heap j1) of
             None \<Rightarrow> Inl TypeError
           | Some p1 \<Rightarrow>
          (case set_location (heap joint) (Some (line_extension p0 p1 (d - d1))) None of
             Inl e \<Rightarrow> Inl e
           | Inr j' \<Rightarrow> Inr (heap(joint := j')))))))
      | _ \<Rightarrow> Inl IndexError)"

text \<open>
  The first loop of \<^verbatim>\<open>sim_function\<close>. An exception leaves the joints as the functions
  before it have set them, so the heap is returned with the error.
\<close>

fun run_steps :: "step list \<Rightarrow> real \<Rightarrow> heap \<Rightarrow> error option \<times> heap" where
  "run_steps [] time heap = (None, heap)"
| "run_steps (f # fs) time heap =
     (case run_step f time heap of
        Inl e \<Rightarrow> (Some e, heap)
      | Inr heap' \<Rightarrow> run_steps fs time heap')"

text \<open>\<^verbatim>\<open>pairwise(iterable)\<close>: \<open>(s0, s1), (s1, s2), ...\<close>\<close>

definition pairwise_py :: "'a list \<Rightarrow> ('a \<times> 'a) list" where
  "pairwise_py s = zip s (tl s)"

text \<open>The validity check of \<^verbatim>\<open>sim_function\<close>: the inner loop over the pairs of one bar.\<close>

fun check_pairs :: "bar \<Rightarrow> (jid \<times> jid) list \<Rightarrow> heap \<Rightarrow> real \<Rightarrow> error option" where
  "check_pairs bar [] heap validity_margin = None"
| "check_pairs bar ((j0, j1) # rest) heap validity_margin =
     (case location (heap j0) of
        None \<Rightarrow> Some TypeError
      | Some p1 \<Rightarrow>
     (case location (heap j1) of
        None \<Rightarrow> Some TypeError
      | Some p2 \<Rightarrow>
     (case joint_distance bar j0 j1 of
        Inl e \<Rightarrow> Some e
      | Inr d \<Rightarrow>
          if \<not> \<bar>d - distance p1 p2\<bar> < validity_margin
          then Some (InvalidLinkageError_distance d (bar_label bar)
                       (label (heap j0)) (label (heap j1)))
          else check_pairs bar rest heap validity_margin)))"

fun check_bars :: "bar list \<Rightarrow> heap \<Rightarrow> real \<Rightarrow> error option" where
  "check_bars [] heap validity_margin = None"
| "check_bars (bar # rest) heap validity_margin =
     (case check_pairs bar (pairwise_py (joints bar)) heap validity_margin of
        Some e \<Rightarrow> Some e
      | None \<Rightarrow> check_bars rest heap validity_margin)"

text \<open>
  \<^verbatim>\<open>sim_function(time)\<close>, the closure that \<^verbatim>\<open>generate_simulation_function\<close> returns, with the
  variables it captures as arguments: \<^verbatim>\<open>self.bars\<close>, \<^verbatim>\<open>function_list\<close> and
  \<^verbatim>\<open>validity_margin\<close>.
\<close>

definition sim_function :: "bar list \<Rightarrow> step list \<Rightarrow> real \<Rightarrow> real \<Rightarrow> heap \<Rightarrow> error option \<times> heap" where
  "sim_function bs function_list validity_margin time heap =
     (case run_steps function_list time heap of
        (Some e, heap') \<Rightarrow> (Some e, heap')
      | (None, heap') \<Rightarrow> (check_bars bs heap' validity_margin, heap'))"

subsection \<open>linkage.py: compiling the pipeline\<close>

text \<open>
  A \<^verbatim>\<open>Linkage\<close>. The field \<open>ljoints\<close> is the attribute \<^verbatim>\<open>joints\<close> (the name \<open>joints\<close> is
  the field of a bar). The cache is \<^verbatim>\<open>None\<close> or a dictionary from the quantised time to a
  snapshot; a snapshot, a dictionary from joints to locations, is embedded as the list of
  its items in the order they were inserted (the order in which Python iterates over the
  dictionary shows only in which joints have been restored when an assignment raises).
  \<^verbatim>\<open>simulation_function\<close> is \<^verbatim>\<open>None\<close> or the compiled closure, embedded as its
  \<^verbatim>\<open>function_list\<close>.
\<close>

record linkage =
  bars :: "bar list"
  ljoints :: "jid list"
  drivers :: "driver list"
  cache :: "(int \<Rightarrow> (jid \<times> point option) list option) option"
  cache_accuraccy :: real
  simulation_function :: "step list option"

type_synonym rule = "jid set \<times> jid \<times> step"

text \<open>
  The order in which Python iterates over a set is not specified by the language. Every
  function that iterates over a set of joints takes that order as its first argument
  \<open>iter\<close>, a function from a set to the list of its elements.
\<close>

type_synonym set_order = "jid set \<Rightarrow> jid list"

definition bars_connected_to_joint :: "linkage \<Rightarrow> jid \<Rightarrow> bar list" where
  "bars_connected_to_joint self joint = filter (\<lambda>bar. joint \<in> set (joints bar)) (bars self)"

text \<open>\<^verbatim>\<open>itertools.combinations(xs, 2)\<close>: the pairs of positions \<open>i < j\<close>, in lexicographic order.\<close>

fun combinations2 :: "'a list \<Rightarrow> ('a \<times> 'a) list" where
  "combinations2 [] = []"
| "combinations2 (x # xs) = map (Pair x) xs @ combinations2 xs"

text \<open>
  \<^verbatim>\<open>solver_for_intersection\<close>. \<^verbatim>\<open>next(bar for bar in bars if a in bar.joints)\<close> is the first bar
  of the pair that holds the joint; the caller takes \<open>a\<close> from the joints of the first bar
  and \<open>b\<close> from those of the second, so the generator is never exhausted.
\<close>

definition solver_for_intersection :: "jid \<Rightarrow> jid \<times> jid \<Rightarrow> bar \<times> bar \<Rightarrow> step" where
  "solver_for_intersection unknown_joint known_joints bs =
     (let a = fst known_joints;
          b = snd known_joints;
          a_bar = (if a \<in> set (joints (fst bs)) then fst bs else snd bs);
          b_bar = (if b \<in> set (joints (fst bs)) then fst bs else snd bs)
      in Intersection_step unknown_joint a b a_bar b_bar)"

definition solver_for_joint_on_bar_given_joints :: "jid \<Rightarrow> bar \<Rightarrow> jid list \<Rightarrow> step" where
  "solver_for_joint_on_bar_given_joints joint bar js = Extension_step joint bar js"

text \<open>Step 1 for one unsolved joint: the linear extension possibilities.\<close>

definition extension_rules :: "jid \<Rightarrow> bar list \<Rightarrow> rule list" where
  "extension_rules joint bs =
     concat (map (\<lambda>bar.
         let other_joints = remove1 joint (joints bar)
         in map (\<lambda>pair. ({fst pair, snd pair}, joint,
                          solver_for_joint_on_bar_given_joints joint bar other_joints))
              (combinations2 other_joints))
       (filter (\<lambda>bar. length (joints bar) > 2) bs))"

text \<open>Step 1 for one unsolved joint: the circular intersection possibilities.\<close>

definition intersection_rules :: "set_order \<Rightarrow> jid \<Rightarrow> bar list \<Rightarrow> rule list" where
  "intersection_rules iter joint bs =
     (if length bs < 2 then []
      else concat (map (\<lambda>bar_pair.
         let b1_joints = set (joints (fst bar_pair)) - {joint};
             b2_joints = set (joints (snd bar_pair)) - {joint}
         in map (\<lambda>joint_pair. ({fst joint_pair, snd joint_pair}, joint,
                                solver_for_intersection joint joint_pair bar_pair))
              (List.product (iter b1_joints) (iter b2_joints)))
       (combinations2 bs)))"

definition candidate_rules :: "set_order \<Rightarrow> linkage \<Rightarrow> jid set \<Rightarrow> rule list" where
  "candidate_rules iter self solved_joints =
     concat (map (\<lambda>joint.
         let bs = bars_connected_to_joint self joint
         in extension_rules joint bs @ intersection_rules iter joint bs)
       (iter (set (ljoints self) - solved_joints)))"

text \<open>
  Step 2, one round: the \<^verbatim>\<open>for solver in requirements_to_functions\<close> loop. The arguments
  are the entries still to visit, \<^verbatim>\<open>solved_joints\<close>, \<^verbatim>\<open>function_list\<close>, the entries of
  \<^verbatim>\<open>new_requirements_to_functions\<close> visited so far and \<^verbatim>\<open>round_solved\<close>. The Python code
  copies the list and removes each activated entry from the copy; every entry is a
  distinct tuple (it holds its own closure), so this removes exactly the activated
  positions, and the embedding keeps the entries that are not activated, in order.
\<close>

fun solve_round :: "rule list \<Rightarrow> jid set \<Rightarrow> step list \<Rightarrow> rule list \<Rightarrow> bool \<Rightarrow>
    rule list \<times> jid set \<times> step list \<times> bool" where
  "solve_round [] solved_joints function_list kept round_solved =
     (kept, solved_joints, function_list, round_solved)"
| "solve_round (solver # rest) solved_joints function_list kept round_solved =
     (if fst solver \<subseteq> solved_joints \<and> fst (snd solver) \<notin> solved_joints
      then solve_round rest (insert (fst (snd solver)) solved_joints)
             (function_list @ [snd (snd solver)]) kept True
      else solve_round rest solved_joints function_list (kept @ [solver]) round_solved)"

lemma solve_round_length:
  "solve_round rs solved fl kept b = (kept', solved', fl', b') \<Longrightarrow>
   length kept' \<le> length kept + length rs \<and>
   (b' \<and> \<not> b \<longrightarrow> length kept' < length kept + length rs)"
proof (induction rs arbitrary: solved fl kept b)
  case Nil
  then show ?case by auto
next
  case (Cons r rs)
  show ?case
  proof (cases "fst r \<subseteq> solved \<and> fst (snd r) \<notin> solved")
    case True
    with Cons.prems
    have "solve_round rs (insert (fst (snd r)) solved) (fl @ [snd (snd r)]) kept True
            = (kept', solved', fl', b')"
      by simp
    from Cons.IH [OF this] show ?thesis by simp
  next
    case False
    with Cons.prems
    have "solve_round rs solved fl (kept @ [r]) b = (kept', solved', fl', b')"
      by (simp split: if_splits)
    from Cons.IH [OF this] show ?thesis by simp
  qed
qed

lemma solve_round_shorter:
  "(kept', y) = solve_round rs solved fl [] False \<Longrightarrow> (solved', z) = y \<Longrightarrow>
   (fl', True) = z \<Longrightarrow> length kept' < length rs"
  using solve_round_length [of rs solved fl "[]" False kept' solved' fl' True] by auto

text \<open>
  Step 2: the \<^verbatim>\<open>while(True)\<close> loop. A round that solves a joint retires an entry, so the
  list of entries gets shorter and the loop terminates.
\<close>

function compile_loop :: "jid set \<Rightarrow> rule list \<Rightarrow> jid set \<Rightarrow> step list \<Rightarrow> error + step list" where
  "compile_loop all_joints requirements_to_functions solved_joints function_list =
     (case solve_round requirements_to_functions solved_joints function_list [] False of
        (new_requirements_to_functions, solved_joints', function_list', round_solved) \<Rightarrow>
          if solved_joints' = all_joints then Inr function_list'
          else if \<not> round_solved
            then Inl (InvalidLinkageError_unsolvable (all_joints - solved_joints'))
          else compile_loop all_joints new_requirements_to_functions solved_joints'
                 function_list')"
  by pat_completeness auto

termination compile_loop
  apply (relation "measure (\<lambda>(all_joints, rs, solved, fl). length rs)")
   apply simp
  apply simp
  apply (erule (2) solve_round_shorter)
  done

text \<open>
  The set that \<^verbatim>\<open>solved_joints\<close> starts from, and \<^verbatim>\<open>generate_simulation_function\<close> up to
  the end of the loop; its result is the \<^verbatim>\<open>function_list\<close> that \<^verbatim>\<open>sim_function\<close> captures.
\<close>

definition initial_solved_joints :: "linkage \<Rightarrow> heap \<Rightarrow> jid set" where
  "initial_solved_joints self heap =
     set (map attachment_joint (drivers self)) \<union> set (filter (\<lambda>joint. fixed (heap joint)) (ljoints self))"

definition generate_simulation_function :: "set_order \<Rightarrow> linkage \<Rightarrow> heap \<Rightarrow> error + step list" where
  "generate_simulation_function iter self heap =
     (let solved_joints = initial_solved_joints self heap;
          requirements_to_functions = candidate_rules iter self solved_joints;
          function_list = map Driver_step (drivers self)
      in compile_loop (set (ljoints self)) requirements_to_functions solved_joints function_list)"

text \<open>
  The state of the \<^verbatim>\<open>while(True)\<close> loop at the start of its pass number \<open>n + 1\<close>: the list
  \<^verbatim>\<open>requirements_to_functions\<close>, the set \<^verbatim>\<open>solved_joints\<close> and \<^verbatim>\<open>function_list\<close>, or \<open>None\<close>
  when the loop has ended before, by \<^verbatim>\<open>break\<close> or by \<^verbatim>\<open>raise\<close>. It follows the same passes and
  the same two tests as \<open>compile_loop\<close>; \<open>generate_loop_state\<close> starts it where
  \<^verbatim>\<open>generate_simulation_function\<close> starts the loop.
\<close>

fun loop_state :: "jid set \<Rightarrow> nat \<Rightarrow> rule list \<Rightarrow> jid set \<Rightarrow> step list \<Rightarrow>
    (rule list \<times> jid set \<times> step list) option" where
  "loop_state all_joints 0 requirements_to_functions solved_joints function_list =
     Some (requirements_to_functions, solved_joints, function_list)"
| "loop_state all_joints (Suc n) requirements_to_functions solved_joints function_list =
     (case solve_round requirements_to_functions solved_joints function_list [] False of
        (new_requirements_to_functions, solved_joints', function_list', round_solved) \<Rightarrow>
          if solved_joints' = all_joints then None
          else if \<not> round_solved then None
          else loop_state all_joints n new_requirements_to_functions solved_joints'
                 function_list')"

definition generate_loop_state :: "set_order \<Rightarrow> linkage \<Rightarrow> heap \<Rightarrow> nat \<Rightarrow>
    (rule list \<times> jid set \<times> step list) option" where
  "generate_loop_state iter self heap n =
     (let solved_joints = initial_solved_joints self heap;
          requirements_to_functions = candidate_rules iter self solved_joints;
          function_list = map Driver_step (drivers self)
      in loop_state (set (ljoints self)) n requirements_to_functions solved_joints function_list)"

subsection \<open>linkage.py: validation, cache and simulation\<close>

text \<open>
  \<^verbatim>\<open>validity_check\<close>: the first bar and joint, in the order of the two nested loops, whose
  joint is not in the linkage's joint list raises; then the first such driver.
\<close>

definition validity_check :: "linkage \<Rightarrow> heap \<Rightarrow> error + bool" where
  "validity_check self heap =
     (case find (\<lambda>(bar, joint). joint \<notin> set (ljoints self))
             (concat (map (\<lambda>bar. map (Pair bar) (joints bar)) (bars self))) of
        Some (bar, joint) \<Rightarrow> Inl (ValueError_bar_reference (bar_label bar) (label (heap joint)))
      | None \<Rightarrow>
          (case find (\<lambda>d. attachment_joint d \<notin> set (ljoints self)) (drivers self) of
             Some d \<Rightarrow>
               Inl (ValueError_driver_reference (drv_label d) (label (heap (attachment_joint d))))
           | None \<Rightarrow> Inr True))"

text \<open>
  The constructor: the three assignments run with the validity check suppressed and
  invalidate the caches, then the cache is set to the empty dictionary and the validity
  check runs.
\<close>

definition Linkage :: "bar list \<Rightarrow> jid list \<Rightarrow> driver list \<Rightarrow> heap \<Rightarrow> error + linkage" where
  "Linkage bs js ds heap =
     (let self = \<lparr>bars = bs, ljoints = js, drivers = ds, cache = Some (\<lambda>_. None),
                  cache_accuraccy = 10000, simulation_function = None\<rparr>
      in case validity_check self heap of
           Inl e \<Rightarrow> Inl e
         | Inr _ \<Rightarrow> Inr self)"

definition invalidate_caches :: "linkage \<Rightarrow> linkage" where
  "invalidate_caches self = self\<lparr>simulation_function := None, cache := None\<rparr>"

text \<open>
  The test \<^verbatim>\<open>self.cache != None and cache_time in self.cache\<close> and the entry it finds.
\<close>

definition cache_entry :: "linkage \<Rightarrow> int \<Rightarrow> (jid \<times> point option) list option" where
  "cache_entry self cache_time =
     (case cache self of None \<Rightarrow> None | Some c \<Rightarrow> c cache_time)"

text \<open>The loop of the cache hit: \<^verbatim>\<open>joint.set_location(self.cache[cache_time][joint])\<close>.\<close>

fun restore_snapshot :: "(jid \<times> point option) list \<Rightarrow> heap \<Rightarrow> error option \<times> heap" where
  "restore_snapshot [] heap = (None, heap)"
| "restore_snapshot ((joint, loc) # rest) heap =
     (case set_location (heap joint) loc None of
        Inl e \<Rightarrow> (Some e, heap)
      | Inr j' \<Rightarrow> restore_snapshot rest (heap(joint := j')))"

text \<open>
  The statement \<^verbatim>\<open>if(self.simulation_function == None): self.simulation_function =
  self.generate_simulation_function()\<close>: the function list that is installed afterwards.
\<close>

definition ensure_simulation_function :: "set_order \<Rightarrow> linkage \<Rightarrow> heap \<Rightarrow> error + step list" where
  "ensure_simulation_function iter self heap =
     (case simulation_function self of
        None \<Rightarrow> generate_simulation_function iter self heap
      | Some function_list \<Rightarrow> Inr function_list)"

text \<open>The default of the parameter \<^verbatim>\<open>validity_margin\<close>.\<close>

definition validity_margin_default :: real where
  "validity_margin_default = 0.001"

text \<open>
  \<^verbatim>\<open>simulate_to_time\<close>. The state is the linkage object and the heap of joints; both are
  returned, also when an exception is raised, as the call leaves them.
\<close>

text \<open>
  The dictionary that \<^verbatim>\<open>self.cache\<close> holds after
  \<^verbatim>\<open>if self.cache == None: self.cache = {}\<close>.
\<close>

definition cache_dict :: "linkage \<Rightarrow> int \<Rightarrow> (jid \<times> point option) list option" where
  "cache_dict self = (case cache self of None \<Rightarrow> (\<lambda>_. None) | Some c \<Rightarrow> c)"

text \<open>
  The loop that builds \<^verbatim>\<open>cache_state\<close>: the location of every joint of the linkage that is
  not fixed.
\<close>

definition snapshot_of :: "linkage \<Rightarrow> heap \<Rightarrow> (jid \<times> point option) list" where
  "snapshot_of self heap =
     map (\<lambda>joint. (joint, location (heap joint)))
       (filter (\<lambda>joint. \<not> fixed (heap joint)) (ljoints self))"

definition simulate_to_time ::
  "set_order \<Rightarrow> linkage \<times> heap \<Rightarrow> real \<Rightarrow> error option \<times> (linkage \<times> heap)" where
  "simulate_to_time iter st time =
     (let self = fst st; heap = snd st in
      if \<not> (0 \<le> time \<and> time \<le> 1) then (Some (ValueError_time time), (self, heap))
      else
        let cache_time = \<lfloor>cache_accuraccy self * time\<rfloor> in
        case cache_entry self cache_time of
          Some snapshot \<Rightarrow>
            (case restore_snapshot snapshot heap of (r, heap') \<Rightarrow> (r, (self, heap')))
        | None \<Rightarrow>
            let c = cache_dict self;
                self1 = self\<lparr>cache := Some c\<rparr>
            in
            case ensure_simulation_function iter self1 heap of
              Inl e \<Rightarrow> (Some e, (self1, heap))
            | Inr function_list \<Rightarrow>
                let self2 = self1\<lparr>simulation_function := Some function_list\<rparr> in
                case sim_function (bars self2) function_list validity_margin_default time heap of
                  (Some e, heap') \<Rightarrow> (Some e, (self2, heap'))
                | (None, heap') \<Rightarrow>
                    let cache_state = snapshot_of self2 heap'
                    in (None, (self2\<lparr>cache := Some (c(cache_time := Some cache_state))\<rparr>, heap')))"

subsection \<open>Specification of the solved set\<close>

text \<open>
  The joints that the candidate rules can reach from the initially solved ones: the least
  set that contains \<open>S0\<close> and, for every rule whose requirement set lies in it, the joint
  the rule solves. It is used to state what the loop of step 2 computes.
\<close>

inductive_set solvable :: "rule list \<Rightarrow> jid set \<Rightarrow> jid set"
  for rs :: "rule list" and S0 :: "jid set" where
  initial: "j \<in> S0 \<Longrightarrow> j \<in> solvable rs S0"
| rule: "r \<in> set rs \<Longrightarrow> \<forall>j\<in>fst r. j \<in> solvable rs S0 \<Longrightarrow> fst (snd r) \<in> solvable rs S0"

text \<open>
  The invariant of the loop of step 2, for the rules \<open>R\<close> and the set \<open>S0\<close> it starts from:
  the solved joints are reachable, and a rule that has left the list has its joint solved.
\<close>

definition loop_inv :: "rule list \<Rightarrow> jid set \<Rightarrow> rule list \<Rightarrow> jid set \<Rightarrow> bool" where
  "loop_inv R S0 rs solved \<longleftrightarrow>
     S0 \<subseteq> solved \<and> solved \<subseteq> solvable R S0 \<and> set rs \<subseteq> set R \<and>
     (\<forall>r\<in>set R. r \<in> set rs \<or> fst (snd r) \<in> solved)"

subsection \<open>Specification of the distance check\<close>

text \<open>
  For a bar and a pair of its joints: the two locations are known, the bar's distance for
  the pair is defined and differs from the Euclidean distance of the locations by less
  than the margin (\<open>distance_ok\<close>); or it does not, and \<open>e\<close> is the error that names the
  distance, the bar and the two joints (\<open>violation\<close>). A bar is located when it has the
  segment lengths its chain needs and all its joints have a location.
\<close>

definition distance_ok :: "bar \<Rightarrow> heap \<Rightarrow> real \<Rightarrow> jid \<times> jid \<Rightarrow> bool" where
  "distance_ok bar heap vm pr \<longleftrightarrow>
     (\<exists>p1 p2 d. location (heap (fst pr)) = Some p1 \<and> location (heap (snd pr)) = Some p2 \<and>
        joint_distance bar (fst pr) (snd pr) = Inr d \<and> \<bar>d - distance p1 p2\<bar> < vm)"

definition violation :: "bar \<Rightarrow> heap \<Rightarrow> real \<Rightarrow> jid \<times> jid \<Rightarrow> error \<Rightarrow> bool" where
  "violation bar heap vm pr e \<longleftrightarrow>
     (\<exists>p1 p2 d. location (heap (fst pr)) = Some p1 \<and> location (heap (snd pr)) = Some p2 \<and>
        joint_distance bar (fst pr) (snd pr) = Inr d \<and> \<not> \<bar>d - distance p1 p2\<bar> < vm \<and>
        e = InvalidLinkageError_distance d (bar_label bar)
              (label (heap (fst pr))) (label (heap (snd pr))))"

definition bar_located :: "bar \<Rightarrow> heap \<Rightarrow> bool" where
  "bar_located bar heap \<longleftrightarrow>
     length (joints bar) \<le> length (segment_lengths bar) + 1 \<and>
     (\<forall>j\<in>set (joints bar). location (heap j) \<noteq> None)"

subsection \<open>linkage.py: copy\<close>

text \<open>
  \<^verbatim>\<open>Linkage.copy\<close> mutates a list that it shares with its caller and creates objects, so it
  is embedded over a store: the heap of joints, the list objects that hold joints
  (\<open>w_lists\<close>, by reference), and the next free identities for the joints and drivers that
  \<^verbatim>\<open>copy.deepcopy\<close> creates. The default value of the parameter \<^verbatim>\<open>shared_joints\<close> is one list
  object, created when the \<^verbatim>\<open>def\<close> statement is executed; it lives at the reference
  \<open>copy_default_shared_joints\<close>. The argument \<open>shared_joints_arg\<close> is \<open>None\<close> when the caller
  omits the parameter and \<open>Some r\<close> when the caller passes the list object \<open>r\<close>.
\<close>

record world =
  w_heap :: heap
  w_lists :: "nat \<Rightarrow> jid list"
  w_next_joint :: jid
  w_next_driver :: nat

definition copy_default_shared_joints :: nat where
  "copy_default_shared_joints = 0"

text \<open>
  The loop over \<^verbatim>\<open>set(self.joints) - set(shared_joints)\<close>: a deep copy of the joint gets the
  next identity and the label with the suffix; \<^verbatim>\<open>mapping\<close> and \<^verbatim>\<open>joints\<close> are extended.
\<close>

fun copy_joints :: "jid list \<Rightarrow> string \<Rightarrow> (jid \<Rightarrow> jid option) \<Rightarrow> jid list \<Rightarrow> world \<Rightarrow>
    (jid \<Rightarrow> jid option) \<times> jid list \<times> world" where
  "copy_joints [] joint_indic mapping js w = (mapping, js, w)"
| "copy_joints (j # rest) joint_indic mapping js w =
     (let newj = w_next_joint w;
          w' = w\<lparr>w_heap := (w_heap w)(newj := (w_heap w j)\<lparr>label := label (w_heap w j) @ joint_indic\<rparr>),
                 w_next_joint := Suc newj\<rparr>
      in copy_joints rest joint_indic (mapping(j := Some newj)) (js @ [newj]) w')"

text \<open>
  The body of the loop over \<^verbatim>\<open>self.bars\<close>. The joints that \<^verbatim>\<open>deepcopy(bar)\<close> copies along
  are dropped by the assignment to \<^verbatim>\<open>newbar.joints\<close> and are not allocated here.
\<close>

definition remap_bar :: "(jid \<Rightarrow> jid option) \<Rightarrow> bar \<Rightarrow> bar" where
  "remap_bar mapping bar =
     bar\<lparr>joints := map (\<lambda>oldj. case mapping oldj of Some newj \<Rightarrow> newj | None \<Rightarrow> oldj) (joints bar)\<rparr>"

text \<open>
  The loop over \<^verbatim>\<open>set(self.drivers) - set(shared_drivers)\<close>; \<^verbatim>\<open>mapping[d.attachment_joint]\<close>
  raises \<^verbatim>\<open>KeyError\<close> for a joint that is not a key.
\<close>

fun copy_drivers :: "driver list \<Rightarrow> (jid \<Rightarrow> jid option) \<Rightarrow> driver list \<Rightarrow> world \<Rightarrow>
    error option \<times> driver list \<times> world" where
  "copy_drivers [] mapping ds w = (None, ds, w)"
| "copy_drivers (d # rest) mapping ds w =
     (case mapping (attachment_joint d) of
        None \<Rightarrow> (Some KeyError, ds, w\<lparr>w_next_driver := Suc (w_next_driver w)\<rparr>)
      | Some a \<Rightarrow>
          copy_drivers rest mapping
            (ds @ [d\<lparr>drv_id := w_next_driver w, attachment_joint := a\<rparr>])
            (w\<lparr>w_next_driver := Suc (w_next_driver w)\<rparr>))"

definition copy :: "set_order \<Rightarrow> (driver set \<Rightarrow> driver list) \<Rightarrow> linkage \<Rightarrow> nat option \<Rightarrow>
    driver list \<Rightarrow> string \<Rightarrow> world \<Rightarrow> (error + linkage) \<times> world" where
  "copy iter diter self shared_joints_arg shared_drivers joint_indic w =
     (let shared_joints =
            (case shared_joints_arg of None \<Rightarrow> copy_default_shared_joints | Some r \<Rightarrow> r);
          w1 = w\<lparr>w_lists := (w_lists w)
                 (shared_joints := w_lists w shared_joints @ map attachment_joint shared_drivers)\<rparr>;
          mapping0 = foldl (\<lambda>m j. m(j := Some j)) (\<lambda>_. None) (w_lists w1 shared_joints);
          js0 = w_lists w1 shared_joints
      in case copy_joints (iter (set (ljoints self) - set (w_lists w1 shared_joints)))
                joint_indic mapping0 js0 w1 of
        (mapping, js, w2) \<Rightarrow>
          let bs = map (remap_bar mapping) (bars self) in
          case copy_drivers (diter (set (drivers self) - set shared_drivers)) mapping
                 shared_drivers w2 of
            (Some e, ds, w3) \<Rightarrow> (Inl e, w3)
          | (None, ds, w3) \<Rightarrow> (Linkage bs js ds (w_heap w3), w3))"

subsection \<open>Concrete inputs\<close>

text \<open>
  The joints, bars, drivers and linkages at which the theorems below are evaluated: three
  joints (free without a chooser, free with the chooser that returns its first argument,
  fixed), bars with a negative length, with a repeated joint and a regular one, and two
  rockers from 0 to 180 degrees with speeds \<open>-1\<close> and \<open>1\<close>, and a slider from \<open>(0, 0)\<close> to
  \<open>(1, 0)\<close> with speed \<open>-1\<close>.
\<close>

definition joint_free :: joint where
  "joint_free = \<lparr>label = ''j'', location = None, fixed = False, chooser = None\<rparr>"

definition joint_first :: joint where
  "joint_first = \<lparr>label = ''j'', location = None, fixed = False, chooser = Some (\<lambda>a b. a)\<rparr>"

definition joint_fixed :: joint where
  "joint_fixed = \<lparr>label = ''f'', location = Some (0, 0), fixed = True, chooser = Some (\<lambda>a b. a)\<rparr>"

definition bar_neg :: bar where
  "bar_neg = \<lparr>bar_label = ''x'', joints = [0, 1, 2], segment_lengths = [1, - 1]\<rparr>"

definition bar_dup :: bar where
  "bar_dup = \<lparr>bar_label = ''x'', joints = [0, 1, 0], segment_lengths = [1, 1]\<rparr>"

definition bar_w :: bar where
  "bar_w = \<lparr>bar_label = ''w'', joints = [0, 1, 2], segment_lengths = [3, 4]\<rparr>"

definition rocker_back :: driver where
  "rocker_back = \<lparr>drv_id = 0, drv_label = ''r'', drv_location = (0, 0), attachment_joint = 0,
     speed = - 1, kind = Rocker 1 0 180\<rparr>"

definition rocker_w :: driver where
  "rocker_w = \<lparr>drv_id = 0, drv_label = ''r'', drv_location = (0, 0), attachment_joint = 0,
     speed = 1, kind = Rocker 1 0 180\<rparr>"

definition slider_back :: driver where
  "slider_back = \<lparr>drv_id = 0, drv_label = ''s'', drv_location = (0, 0), attachment_joint = 0,
     speed = - 1, kind = Slider (1, 0)\<rparr>"

text \<open>An iteration order for sets of joints: ascending identities.\<close>

definition iter_w :: set_order where
  "iter_w S = filter (\<lambda>j. j \<in> S) [0, 1, 2, 3, 4, 5]"

text \<open>
  A crank of radius 1 around a fixed pivot at the origin, with a bar from the pivot to the
  driven joint: of length 1 (\<open>lk_arm\<close>), of length 2, which the crank cannot satisfy
  (\<open>lk_long\<close>), and of the declared length \<open>-1\<close> (\<open>lk_back\<close>). \<open>heap_arm_0\<close> is the heap after the crank has been updated for time 0.
\<close>

definition joint_pivot :: joint where
  "joint_pivot = \<lparr>label = ''j0'', location = Some (0, 0), fixed = True, chooser = None\<rparr>"

definition joint_tip :: joint where
  "joint_tip = \<lparr>label = ''j1'', location = None, fixed = False, chooser = None\<rparr>"

definition heap_arm :: heap where
  "heap_arm = (\<lambda>_. joint_tip)(2 := joint_pivot)"

definition crank_arm :: driver where
  "crank_arm = \<lparr>drv_id = 0, drv_label = ''crank'', drv_location = (0, 0), attachment_joint = 3,
     speed = 1, kind = Crank 1 0\<rparr>"

definition bar_arm :: bar where
  "bar_arm = \<lparr>bar_label = ''arm'', joints = [2, 3], segment_lengths = [1]\<rparr>"

definition bar_long :: bar where
  "bar_long = \<lparr>bar_label = ''arm'', joints = [2, 3], segment_lengths = [2]\<rparr>"

definition lk_arm :: linkage where
  "lk_arm = \<lparr>bars = [bar_arm], ljoints = [2, 3], drivers = [crank_arm],
     cache = Some (\<lambda>_. None), cache_accuraccy = 10000, simulation_function = None\<rparr>"

definition lk_long :: linkage where
  "lk_long = \<lparr>bars = [bar_long], ljoints = [2, 3], drivers = [crank_arm],
     cache = Some (\<lambda>_. None), cache_accuraccy = 10000, simulation_function = None\<rparr>"

definition bar_back :: bar where
  "bar_back = \<lparr>bar_label = ''arm'', joints = [2, 3], segment_lengths = [- 1]\<rparr>"

definition lk_back :: linkage where
  "lk_back = \<lparr>bars = [bar_back], ljoints = [2, 3], drivers = [crank_arm],
     cache = Some (\<lambda>_. None), cache_accuraccy = 10000, simulation_function = None\<rparr>"

definition heap_arm_0 :: heap where
  "heap_arm_0 = heap_arm(3 := joint_tip\<lparr>location := Some (1, 0)\<rparr>)"

text \<open>
  A rigid bar with four joints \<open>S, A, B, J\<close> (identities 3, 4, 5, 2) and segment lengths
  1, 1, 1: \<open>A\<close> and \<open>B\<close> are fixed at \<open>(1, 0)\<close> and \<open>(2, 0)\<close>, \<open>S\<close> is created with the
  location \<open>(0.0001, -0.02)\<close> and \<open>J\<close> without a location. \<open>fl_rod\<close> is the function list
  compiled for it when the unsolved joints are iterated in the order \<open>J, S\<close>;
  \<open>heap_rod_1\<close>, \<open>lk_rod_1\<close> and \<open>heap_rod_2\<close>, \<open>lk_rod_2\<close> are the states after a first and a
  second simulation.
\<close>

definition joint_J :: joint where
  "joint_J = \<lparr>label = ''J'', location = None, fixed = False, chooser = None\<rparr>"

definition joint_S :: joint where
  "joint_S = \<lparr>label = ''S'', location = Some (1 / 10000, - (1 / 50)), fixed = False, chooser = None\<rparr>"

definition joint_A :: joint where
  "joint_A = \<lparr>label = ''A'', location = Some (1, 0), fixed = True, chooser = None\<rparr>"

definition joint_B :: joint where
  "joint_B = \<lparr>label = ''B'', location = Some (2, 0), fixed = True, chooser = None\<rparr>"

definition heap_rod :: heap where
  "heap_rod = (\<lambda>_. joint_J)(3 := joint_S, 4 := joint_A, 5 := joint_B)"

definition bar_rod :: bar where
  "bar_rod = \<lparr>bar_label = ''rod'', joints = [3, 4, 5, 2], segment_lengths = [1, 1, 1]\<rparr>"

definition lk_rod :: linkage where
  "lk_rod = \<lparr>bars = [bar_rod], ljoints = [2, 3, 4, 5], drivers = [],
     cache = Some (\<lambda>_. None), cache_accuraccy = 10000, simulation_function = None\<rparr>"

definition fl_rod :: "step list" where
  "fl_rod = [Extension_step 2 bar_rod [3, 4, 5], Extension_step 3 bar_rod [4, 5, 2]]"

definition heap_rod_1 :: heap where
  "heap_rod_1 = heap_rod(2 := joint_J\<lparr>location := Some (29999 / 10001, 400 / 10001)\<rparr>,
                         3 := joint_S\<lparr>location := Some (0, 0)\<rparr>)"

definition heap_rod_2 :: heap where
  "heap_rod_2 = heap_rod(2 := joint_J\<lparr>location := Some (3, 0)\<rparr>,
                         3 := joint_S\<lparr>location := Some (0, 0)\<rparr>)"

definition lk_rod_1 :: linkage where
  "lk_rod_1 = lk_rod\<lparr>cache := Some ((\<lambda>_. None)
       (0 := Some [(2, Some (29999 / 10001, 400 / 10001)), (3, Some (0, 0))])),
     simulation_function := Some fl_rod\<rparr>"

definition lk_rod_2 :: linkage where
  "lk_rod_2 = lk_rod\<lparr>cache := Some ((\<lambda>_. None) (0 := Some [(2, Some (3, 0)), (3, Some (0, 0))])),
     simulation_function := Some fl_rod\<rparr>"

text \<open>
  Two bars of three joints that share the joint 3: \<open>p\<close> holds the fixed joints 4 and 5 and
  the joint 3, \<open>q\<close> holds the joints 3, 0 and 2. In \<open>heap_chain\<close> the joint 0 is fixed, in
  \<open>heap_slack\<close> it is not. \<open>rules_chain\<close> and \<open>rules_slack\<close> are the lists of step 1 for the
  two heaps; \<open>rule_3\<close> extends \<open>p\<close> to the joint 3 and \<open>rule_2\<close> extends \<open>q\<close> to the joint 2.
\<close>

definition bar_p :: bar where
  "bar_p = \<lparr>bar_label = ''p'', joints = [4, 5, 3], segment_lengths = [1, 1]\<rparr>"

definition bar_q :: bar where
  "bar_q = \<lparr>bar_label = ''q'', joints = [3, 0, 2], segment_lengths = [1, 1]\<rparr>"

definition lk_chain :: linkage where
  "lk_chain = \<lparr>bars = [bar_p, bar_q], ljoints = [0, 2, 3, 4, 5], drivers = [],
     cache = Some (\<lambda>_. None), cache_accuraccy = 10000, simulation_function = None\<rparr>"

definition heap_chain :: heap where
  "heap_chain = (\<lambda>_. joint_J)(0 := joint_fixed, 4 := joint_A, 5 := joint_B)"

definition heap_slack :: heap where
  "heap_slack = (\<lambda>_. joint_J)(4 := joint_A, 5 := joint_B)"

definition rule_2 :: rule where
  "rule_2 = ({3, 0}, 2, Extension_step 2 bar_q [3, 0])"

definition rule_3 :: rule where
  "rule_3 = ({4, 5}, 3, Extension_step 3 bar_p [4, 5])"

definition rules_chain :: "rule list" where
  "rules_chain =
     [rule_2,
      rule_3,
      ({0, 2}, 3, Extension_step 3 bar_q [0, 2]),
      ({4, 0}, 3, Intersection_step 3 4 0 bar_p bar_q),
      ({4, 2}, 3, Intersection_step 3 4 2 bar_p bar_q),
      ({5, 0}, 3, Intersection_step 3 5 0 bar_p bar_q),
      ({5, 2}, 3, Intersection_step 3 5 2 bar_p bar_q)]"

definition rules_slack :: "rule list" where
  "rules_slack = ({3, 2}, 0, Extension_step 0 bar_q [3, 2]) # rules_chain"

text \<open>
  An iteration order for sets of drivers and a store for the crank linkage: no list holds a
  joint yet, and \<open>world_arm_1\<close>, \<open>world_arm_2\<close> are the stores after one and two calls of
  \<^verbatim>\<open>copy\<close> without the parameter \<^verbatim>\<open>shared_joints\<close>, \<open>world_arm_3\<close> the store after a call that
  passes the list object 7.
\<close>

definition diter_w :: "driver set \<Rightarrow> driver list" where
  "diter_w S = filter (\<lambda>d. d \<in> S) [crank_arm]"

definition world_arm :: world where
  "world_arm = \<lparr>w_heap = heap_arm, w_lists = (\<lambda>_. []), w_next_joint = 10, w_next_driver = 10\<rparr>"

definition world_arm_1 :: world where
  "world_arm_1 = snd (copy iter_w diter_w lk_arm None [crank_arm] ''_a'' world_arm)"

definition world_arm_2 :: world where
  "world_arm_2 = snd (copy iter_w diter_w lk_arm None [crank_arm] ''_b'' world_arm_1)"

definition world_arm_3 :: world where
  "world_arm_3 = snd (copy iter_w diter_w lk_arm (Some 7) [crank_arm] ''_c'' world_arm)"

section \<open>Geometry\<close>

lemma circular_intersection_coincident:
  "circular_intersection c a_radius c b_radius = Inl ZeroDivisionError"
  by (simp add: circular_intersection_def py_sqrt_def split: prod.splits)

lemma circular_intersection_distinct:
  assumes "a_center \<noteq> b_center"
  shows "\<exists>r. circular_intersection a_center a_radius b_center b_radius = Inr r"
proof -
  obtain x_A y_A x_B y_B where c: "a_center = (x_A, y_A)" "b_center = (x_B, y_B)"
    by (cases a_center, cases b_center) auto
  with assms have "x_A - x_B \<noteq> 0 \<or> y_A - y_B \<noteq> 0" by auto
  then have "(x_A - x_B)\<^sup>2 + (y_A - y_B)\<^sup>2 \<noteq> 0"
    by (simp add: sum_power2_eq_zero_iff)
  then have "sqrt ((x_A - x_B)\<^sup>2 + (y_A - y_B)\<^sup>2) \<noteq> 0"
    by simp
  with c show ?thesis
    by (simp add: circular_intersection_def py_sqrt_def Let_def)
qed

text \<open>
  C4. \<^verbatim>\<open>circular_intersection\<close> is claimed to return two points or \<^verbatim>\<open>None\<close> and never to fail
  in another way, coincident centres being one of the \<^verbatim>\<open>None\<close> cases. For two circles with the
  same centre (here radii 1 and 2 around the origin, which do not intersect) the function
  raises \<^verbatim>\<open>ZeroDivisionError\<close>: the distance of the centres is \<open>0\<close>, the division by
  \<open>2 * L_C\<close> raises, and the handler catches \<^verbatim>\<open>ValueError\<close> only.
\<close>

theorem circular_intersection_same_center_raises:
  "circular_intersection (0, 0) 1 (0, 0) 2 = Inl ZeroDivisionError"
  by (rule circular_intersection_coincident)

section \<open>Joint\<close>

text \<open>
  C6, as claimed, fails on a fixed joint: the single-candidate call does not assign, it
  raises the \<^verbatim>\<open>AttributeError\<close> of \<^verbatim>\<open>Joint.__setattr__\<close>.
\<close>

theorem set_location_fixed_counterexample:
  "set_location joint_fixed (Some (1, 1)) None = Inl AttributeError"
  by (simp add: set_location_def setattr_location_def joint_fixed_def)

text \<open>
  C6 (amended). For a joint that is not fixed: the two-candidate call
  \<^verbatim>\<open>set_location(locA, locB)\<close> raises the missing-chooser \<^verbatim>\<open>ValueError\<close> when the joint has no
  chooser and otherwise assigns \<open>chooser(locA, locB)\<close>; the single-candidate call
  \<^verbatim>\<open>set_location(loc)\<close> assigns \<open>loc\<close> whether or not there is a chooser. For a fixed joint
  the missing-chooser error is raised in the same case, and every call that reaches the
  assignment raises \<^verbatim>\<open>AttributeError\<close> and leaves the location as it is.
\<close>

theorem set_location_cases:
  "(locB \<noteq> None \<and> chooser j = None \<longrightarrow>
      set_location j locA locB = Inl (ValueError_no_chooser (label j))) \<and>
   (locB \<noteq> None \<and> chooser j = Some c \<and> \<not> fixed j \<longrightarrow>
      set_location j locA locB = Inr (j\<lparr>location := c locA locB\<rparr>)) \<and>
   (\<not> fixed j \<longrightarrow> set_location j locA None = Inr (j\<lparr>location := locA\<rparr>)) \<and>
   (fixed j \<and> (locB = None \<or> chooser j \<noteq> None) \<longrightarrow>
      set_location j locA locB = Inl AttributeError)"
  by (auto simp: set_location_def setattr_location_def split: option.splits)

theorem set_location_cases_witness:
  "set_location joint_free (Some (1, 2)) (Some (3, 4)) = Inl (ValueError_no_chooser ''j'') \<and>
   set_location joint_first (Some (1, 2)) (Some (3, 4)) = Inr (joint_first\<lparr>location := Some (1, 2)\<rparr>) \<and>
   set_location joint_free (Some (1, 2)) None = Inr (joint_free\<lparr>location := Some (1, 2)\<rparr>) \<and>
   set_location joint_fixed (Some (1, 2)) (Some (3, 4)) = Inl AttributeError"
  using set_location_cases [of "Some (3, 4)" joint_free "Some (1, 2)" "\<lambda>a b. a"]
    set_location_cases [of "Some (3, 4)" joint_first "Some (1, 2)" "\<lambda>a b. a"]
    set_location_cases [of "Some (3, 4)" joint_fixed "Some (1, 2)" "\<lambda>a b. a"]
  by (simp add: joint_free_def joint_first_def joint_fixed_def)

section \<open>Bar\<close>

lemma origin_distance_loop_nth:
  "distinct js \<Longrightarrow> i < length js \<Longrightarrow> n + i \<le> length segs \<Longrightarrow>
   origin_distance_loop segs (js ! i) (enumerate n js) acc =
     Inr (acc + sum_list (take i (drop n segs)))"
proof (induction js arbitrary: i n acc)
  case Nil
  then show ?case by simp
next
  case (Cons x r)
  show ?case
  proof (cases i)
    case 0
    then show ?thesis by simp
  next
    case (Suc i')
    with Cons.prems have ne: "r ! i' \<noteq> x" and lt: "i' < length r" and n: "n < length segs"
      and le: "Suc n + i' \<le> length segs" and d: "distinct r"
      by auto
    have "take (Suc i') (drop n segs) = segs ! n # take i' (drop (Suc n) segs)"
      using n by (simp add: Cons_nth_drop_Suc [symmetric])
    with Cons.IH [OF d lt le] Suc ne n show ?thesis
      by (simp add: add.assoc)
  qed
qed

lemma sum_list_take_mono:
  "\<forall>s\<in>set segs. (0::real) \<le> s \<Longrightarrow> i \<le> j \<Longrightarrow>
   sum_list (take i segs) \<le> sum_list (take j segs)"
proof (induction segs arbitrary: i j)
  case Nil
  then show ?case by simp
next
  case (Cons s segs)
  show ?case
  proof (cases i)
    case 0
    have "0 \<le> sum_list (take j (s # segs))"
    proof (rule sum_list_nonneg)
      fix x assume "x \<in> set (take j (s # segs))"
      then have "x \<in> set (s # segs)" by (rule in_set_takeD)
      with Cons.prems(1) show "0 \<le> x" by blast
    qed
    with 0 show ?thesis by simp
  next
    case (Suc i')
    with Cons.prems obtain j' where j: "j = Suc j'" and "i' \<le> j'"
      by (cases j) auto
    with Cons.IH [of i' j'] Cons.prems Suc show ?thesis by simp
  qed
qed

text \<open>
  C7, as claimed for every bar, fails in two ways. The constructor accepts a negative
  segment length, and then the prefix sums go down: on the chain \<open>[0, 1, 2]\<close> with lengths
  \<open>[1, -1]\<close> the joint at position 1 is at distance 1 and the joint at position 2 at
  distance 0. It also accepts a chain that names a joint twice, and \<^verbatim>\<open>origin_distance\<close>
  stops at the first occurrence: on the chain \<open>[0, 1, 0]\<close> with lengths \<open>[1, 1]\<close> position 1
  is at distance 1 and position 2 at distance 0.
\<close>

theorem origin_distance_monotone_counterexample:
  "Bar ''x'' [0, 1, 2] [1, - 1] = Inr bar_neg \<and>
   origin_distance bar_neg (joints bar_neg ! 1) = Inr 1 \<and>
   origin_distance bar_neg (joints bar_neg ! 2) = Inr 0 \<and>
   Bar ''x'' [0, 1, 0] [1, 1] = Inr bar_dup \<and>
   origin_distance bar_dup (joints bar_dup ! 1) = Inr 1 \<and>
   origin_distance bar_dup (joints bar_dup ! 2) = Inr 0"
  by (simp add: Bar_def bar_neg_def bar_dup_def origin_distance_def enumerate_eq_zip upt_rec)

text \<open>
  C7 (amended). For every bar the constructor accepts whose joints are pairwise distinct
  and whose segment lengths are all non-negative, the origin distance of the joint at
  chain position \<open>k\<close> is the sum of the first \<open>k\<close> segment lengths, and for positions
  \<open>i \<le> j\<close> the origin distance at \<open>i\<close> is at most the one at \<open>j\<close>.
\<close>

theorem origin_distance_monotone:
  assumes "Bar lbl js segs = Inr b" and "distinct js" and "\<forall>s\<in>set segs. 0 \<le> s"
    and "i \<le> j" and "j < length js"
  shows "origin_distance b (joints b ! i) = Inr (sum_list (take i (segment_lengths b))) \<and>
         origin_distance b (joints b ! j) = Inr (sum_list (take j (segment_lengths b))) \<and>
         sum_list (take i (segment_lengths b)) \<le> sum_list (take j (segment_lengths b))"
proof -
  from assms(1) have b: "joints b = js" "segment_lengths b = segs"
    and len: "length segs = length js - 1"
    by (auto simp: Bar_def split: if_splits)
  have od: "origin_distance b (js ! k) = Inr (sum_list (take k segs))" if "k < length js" for k
  proof -
    from that len have "0 + k \<le> length segs" by simp
    from origin_distance_loop_nth [OF assms(2) that this, of 0] that b
    show ?thesis by (simp add: origin_distance_def)
  qed
  from assms(4,5) have "i < length js" by simp
  with od [of i] od [of j] assms(5) sum_list_take_mono [OF assms(3,4)] b
  show ?thesis by simp
qed

theorem origin_distance_monotone_witness:
  "Bar ''w'' [0, 1, 2] [3, 4] = Inr bar_w \<and> distinct [0, 1, 2 :: nat] \<and>
   origin_distance bar_w (joints bar_w ! 1) = Inr 3 \<and>
   origin_distance bar_w (joints bar_w ! 2) = Inr 7"
  using origin_distance_monotone [of "''w''" "[0, 1, 2]" "[3, 4]" bar_w 1 2]
  by (simp add: Bar_def bar_w_def)

text \<open>
  On such a bar the distance that \<^verbatim>\<open>joint_distance\<close> gives for two chain-adjacent joints is
  the segment length declared for them.
\<close>

lemma joint_distance_adjacent:
  assumes "Bar lbl js segs = Inr b" and "distinct js" and "\<forall>s\<in>set segs. 0 \<le> s"
    and "Suc i < length js"
  shows "joint_distance b (js ! i) (js ! Suc i) = Inr (segs ! i)"
proof -
  from assms(1) have b: "joints b = js" "segment_lengths b = segs"
    and len: "length segs = length js - 1"
    by (auto simp: Bar_def split: if_splits)
  from assms(4) len have i: "i < length segs" by simp
  have od: "origin_distance b (js ! k) = Inr (sum_list (take k segs))" if "k < length js" for k
  proof -
    from that len have "0 + k \<le> length segs" by simp
    from origin_distance_loop_nth [OF assms(2) that this, of 0] that b
    show ?thesis by (simp add: origin_distance_def)
  qed
  have "sum_list (take (Suc i) segs) = sum_list (take i segs) + segs ! i"
    using i by (simp add: take_Suc_conv_app_nth)
  moreover from assms(3) i have "0 \<le> segs ! i" by simp
  ultimately show ?thesis
    using od [of i] od [of "Suc i"] assms(4) by (simp add: joint_distance_def)
qed

section \<open>Drivers\<close>

lemma fmod_one: "fmod x 1 = Inr (x - of_int (py_trunc x))"
  by (simp add: fmod_def)

lemma py_trunc_nonneg: "0 \<le> x \<Longrightarrow> x - of_int (py_trunc x) = frac x"
  by (simp add: py_trunc_def frac_def)

text \<open>
  C8. For a rocker with angles \<open>sa\<close> and \<open>ea\<close> in degrees: for \<open>t\<close> in \<open>[0, 0.5)\<close> the
  angle is \<open>sa + 2 t (ea - sa)\<close>, for \<open>t\<close> in \<open>[0.5, 1)\<close> it is
  \<open>ea - 2 (t - 0.5) (ea - sa)\<close>; the angle is converted to radians (times \<open>\<pi> / 180\<close>) and
  \<^verbatim>\<open>point_for_time(t)\<close> is the centre plus \<open>length\<close> times \<open>(cos, sin)\<close> of it.
\<close>

theorem rocker_point_for_time:
  assumes "kind d = Rocker len sa ea"
  shows "(0 \<le> t \<and> t < 1 / 2 \<longrightarrow> point_for_time d t =
            (fst (drv_location d) + len * cos ((sa + 2 * t * (ea - sa)) * pi / 180),
             snd (drv_location d) + len * sin ((sa + 2 * t * (ea - sa)) * pi / 180))) \<and>
         (1 / 2 \<le> t \<and> t < 1 \<longrightarrow> point_for_time d t =
            (fst (drv_location d) + len * cos ((ea - 2 * (t - 1 / 2) * (ea - sa)) * pi / 180),
             snd (drv_location d) + len * sin ((ea - 2 * (t - 1 / 2) * (ea - sa)) * pi / 180)))"
  using assms by (simp add: point_for_time_def Let_def algebra_simps)

theorem rocker_point_for_time_witness:
  "kind rocker_w = Rocker 1 0 180 \<and> point_for_time rocker_w (1 / 4) = (0, 1) \<and>
   point_for_time rocker_w (5 / 6) = (1 / 2, sqrt 3 / 2)"
  using rocker_point_for_time [of rocker_w 1 0 180 "1 / 4"]
    rocker_point_for_time [of rocker_w 1 0 180 "5 / 6"]
  by (simp add: rocker_w_def cos_60 sin_60)

text \<open>
  On an attachment joint that is not fixed, \<^verbatim>\<open>update_attachment_point(t)\<close> assigns
  \<open>point_for_time\<close> of \<^verbatim>\<open>math.fmod(t * speed, 1.0)\<close> and changes no other joint; \<open>fmod x 1.0\<close> is
  \<open>x\<close> minus its integer part truncated towards zero, which is \<open>x mod 1\<close> for \<open>x \<ge> 0\<close> only.
\<close>

lemma update_attachment_point_fmod:
  assumes "\<not> fixed (heap (attachment_joint d))"
  shows "update_attachment_point d t heap =
           Inr (heap(attachment_joint d := (heap (attachment_joint d))
             \<lparr>location := Some (point_for_time d (t * speed d - of_int (py_trunc (t * speed d))))\<rparr>)) \<and>
         fmod (t * speed d) 1.0 = Inr (t * speed d - of_int (py_trunc (t * speed d))) \<and>
         (0 \<le> t * speed d \<longrightarrow>
            t * speed d - of_int (py_trunc (t * speed d)) = frac (t * speed d))"
  using assms
  by (simp add: update_attachment_point_def fmod_one setattr_location_def py_trunc_nonneg)

text \<open>
  C5. The effective time is claimed to be \<open>(t * speed) mod 1.0\<close>, a time in \<open>[0, 1)\<close>, which is
  the range the docstring of \<^verbatim>\<open>point_for_time\<close> states. With a negative speed the code does
  not give it: \<^verbatim>\<open>math.fmod\<close> keeps the sign of \<open>t * speed\<close>. For speed \<open>-1\<close> and \<open>t = 1/4\<close> it
  returns \<open>-1/4\<close>; a rocker from 0 to 180 degrees is evaluated there and put at \<open>(0, -1)\<close>,
  at -90 degrees and outside its sweep, where \<open>(t * speed) mod 1 = 3/4\<close> gives \<open>(0, 1)\<close>;
  a slider from \<open>(0, 0)\<close> to \<open>(1, 0)\<close> is put at \<open>(-1/2, 0)\<close>, behind its start, where
  \<open>3/4\<close> gives \<open>(1/2, 0)\<close>.
\<close>

theorem update_attachment_point_negative_speed:
  "fmod (1 / 4 * speed rocker_back) 1.0 = Inr (- (1 / 4)) \<and>
   map_sum id (\<lambda>h. location (h 0)) (update_attachment_point rocker_back (1 / 4) (\<lambda>_. joint_free))
     = Inr (Some (0, - 1)) \<and>
   point_for_time rocker_back (frac (1 / 4 * speed rocker_back)) = (0, 1) \<and>
   map_sum id (\<lambda>h. location (h 0)) (update_attachment_point slider_back (1 / 4) (\<lambda>_. joint_free))
     = Inr (Some (- (1 / 2), 0)) \<and>
   point_for_time slider_back (frac (1 / 4 * speed slider_back)) = (1 / 2, 0)"
  by (simp add: update_attachment_point_def fmod_def py_trunc_def ceiling_def setattr_location_def
      joint_free_def rocker_back_def slider_back_def point_for_time_def frac_def
      distance_def line_angle_def atan2_def)

section \<open>Compiling the pipeline\<close>

lemma solve_round_mono:
  "solve_round rs solved fl kept b = (kept', solved', fl', b') \<Longrightarrow> solved \<subseteq> solved'"
proof (induction rs arbitrary: solved fl kept b)
  case Nil
  then show ?case by simp
next
  case (Cons x rs)
  show ?case
  proof (cases "fst x \<subseteq> solved \<and> fst (snd x) \<notin> solved")
    case True
    with Cons.prems
    have "solve_round rs (insert (fst (snd x)) solved) (fl @ [snd (snd x)]) kept True
            = (kept', solved', fl', b')" by auto
    from Cons.IH [OF this] show ?thesis by blast
  next
    case False
    with Cons.prems
    have "solve_round rs solved fl (kept @ [x]) b = (kept', solved', fl', b')"
      by (auto split: if_splits)
    from Cons.IH [OF this] show ?thesis .
  qed
qed

lemma solve_round_kept:
  "solve_round rs solved fl kept b = (kept', solved', fl', b') \<Longrightarrow>
   set kept \<subseteq> set kept' \<and> set kept' \<subseteq> set kept \<union> set rs"
  by (induction rs arbitrary: solved fl kept b) (fastforce split: if_splits)+

lemma solve_round_retired:
  "solve_round rs solved fl kept b = (kept', solved', fl', b') \<Longrightarrow> r \<in> set rs \<Longrightarrow>
   r \<in> set kept' \<or> fst (snd r) \<in> solved'"
proof (induction rs arbitrary: solved fl kept b)
  case Nil
  then show ?case by simp
next
  case (Cons x rs)
  show ?case
  proof (cases "fst x \<subseteq> solved \<and> fst (snd x) \<notin> solved")
    case True
    with Cons.prems(1)
    have *: "solve_round rs (insert (fst (snd x)) solved) (fl @ [snd (snd x)]) kept True
            = (kept', solved', fl', b')" by auto
    from solve_round_mono [OF *] Cons.IH [OF *] Cons.prems(2) show ?thesis by auto
  next
    case False
    with Cons.prems(1)
    have *: "solve_round rs solved fl (kept @ [x]) b = (kept', solved', fl', b')"
      by (auto split: if_splits)
    from solve_round_kept [OF *] Cons.IH [OF *] Cons.prems(2) show ?thesis by auto
  qed
qed

lemma solve_round_sound:
  "solve_round rs solved fl kept b = (kept', solved', fl', b') \<Longrightarrow> set rs \<subseteq> set R \<Longrightarrow>
   solved \<subseteq> solvable R S0 \<Longrightarrow> solved' \<subseteq> solvable R S0"
proof (induction rs arbitrary: solved fl kept b)
  case Nil
  then show ?case by simp
next
  case (Cons x rs)
  from Cons.prems(2) have xR: "x \<in> set R" and rsR: "set rs \<subseteq> set R" by auto
  show ?case
  proof (cases "fst x \<subseteq> solved \<and> fst (snd x) \<notin> solved")
    case True
    with Cons.prems(1)
    have *: "solve_round rs (insert (fst (snd x)) solved) (fl @ [snd (snd x)]) kept True
            = (kept', solved', fl', b')" by auto
    from True Cons.prems(3) have "\<forall>j\<in>fst x. j \<in> solvable R S0" by blast
    with xR have "fst (snd x) \<in> solvable R S0" by (rule solvable.rule)
    with Cons.prems(3) have "insert (fst (snd x)) solved \<subseteq> solvable R S0" by simp
    from Cons.IH [OF * rsR this] show ?thesis .
  next
    case False
    with Cons.prems(1)
    have *: "solve_round rs solved fl (kept @ [x]) b = (kept', solved', fl', b')"
      by (auto split: if_splits)
    from Cons.IH [OF * rsR Cons.prems(3)] show ?thesis .
  qed
qed

lemma solve_round_flag:
  "solve_round rs solved fl kept b = (kept', solved', fl', b') \<Longrightarrow> b \<Longrightarrow> b'"
  by (induction rs arbitrary: solved fl kept b) (auto split: if_splits)

lemma solve_round_stalled:
  "solve_round rs solved fl kept b = (kept', solved', fl', False) \<Longrightarrow>
   solved' = solved \<and> fl' = fl \<and> kept' = kept @ rs \<and>
   (\<forall>r\<in>set rs. \<not> (fst r \<subseteq> solved \<and> fst (snd r) \<notin> solved))"
proof (induction rs arbitrary: kept)
  case Nil
  then show ?case by simp
next
  case (Cons x rs)
  show ?case
  proof (cases "fst x \<subseteq> solved \<and> fst (snd x) \<notin> solved")
    case True
    with Cons.prems
    have "solve_round rs (insert (fst (snd x)) solved) (fl @ [snd (snd x)]) kept True
            = (kept', solved', fl', False)" by auto
    from solve_round_flag [OF this] show ?thesis by simp
  next
    case False
    with Cons.prems
    have *: "solve_round rs solved fl (kept @ [x]) b = (kept', solved', fl', False)"
      by (auto split: if_splits)
    from Cons.IH [OF *] False show ?thesis by auto
  qed
qed

lemma loop_inv_round:
  assumes "loop_inv R S0 rs solved"
    and "solve_round rs solved fl [] False = (rs', solved', fl', b')"
  shows "loop_inv R S0 rs' solved'"
proof -
  from assms(1) have a: "S0 \<subseteq> solved" "solved \<subseteq> solvable R S0" "set rs \<subseteq> set R"
    and b: "\<And>r. r \<in> set R \<Longrightarrow> r \<in> set rs \<or> fst (snd r) \<in> solved"
    by (auto simp: loop_inv_def)
  from solve_round_mono [OF assms(2)] a(1) have 1: "S0 \<subseteq> solved'" by blast
  from solve_round_sound [OF assms(2) a(3) a(2)] have 2: "solved' \<subseteq> solvable R S0" .
  from solve_round_kept [OF assms(2)] a(3) have 3: "set rs' \<subseteq> set R" by auto
  have 4: "r \<in> set rs' \<or> fst (snd r) \<in> solved'" if "r \<in> set R" for r
    using b [OF that] solve_round_retired [OF assms(2), of r] solve_round_mono [OF assms(2)]
    by blast
  from 1 2 3 4 show ?thesis by (auto simp: loop_inv_def)
qed

lemma loop_inv_stalled:
  assumes "loop_inv R S0 rs solved"
    and "solve_round rs solved fl [] False = (rs', solved', fl', False)"
  shows "solved' = solvable R S0"
proof -
  from solve_round_stalled [OF assms(2)]
  have eq: "solved' = solved"
    and st: "\<And>r. r \<in> set rs \<Longrightarrow> fst r \<subseteq> solved \<Longrightarrow> fst (snd r) \<in> solved"
    by auto
  from assms(1) have a: "S0 \<subseteq> solved" "solved \<subseteq> solvable R S0"
    and b: "\<And>r. r \<in> set R \<Longrightarrow> r \<in> set rs \<or> fst (snd r) \<in> solved"
    by (auto simp: loop_inv_def)
  have "j \<in> solved" if "j \<in> solvable R S0" for j
    using that
  proof induction
    case (initial j)
    with a(1) show ?case by blast
  next
    case (rule r)
    then have "fst r \<subseteq> solved" by blast
    with b [OF rule(1)] st [of r] show ?case by blast
  qed
  with a(2) eq show ?thesis by blast
qed

lemma compile_loop_result:
  "loop_inv R S0 rs solved \<Longrightarrow>
   (case compile_loop J rs solved fl of
      Inl e \<Rightarrow> e = InvalidLinkageError_unsolvable (J - solvable R S0) \<and> solvable R S0 \<noteq> J
    | Inr fl' \<Rightarrow> J \<subseteq> solvable R S0)"
proof (induction J rs solved fl rule: compile_loop.induct)
  case (1 J rs solved fl)
  obtain rs' solved' fl' b' where r: "solve_round rs solved fl [] False = (rs', solved', fl', b')"
    by (cases "solve_round rs solved fl [] False") auto
  from loop_inv_round [OF "1.prems" r] have inv': "loop_inv R S0 rs' solved'" .
  show ?case
  proof (cases "solved' = J")
    case True
    with inv' r show ?thesis by (simp add: loop_inv_def)
  next
    case False
    show ?thesis
    proof (cases b')
      case True
      have "case compile_loop J rs' solved' fl' of
              Inl e \<Rightarrow> e = InvalidLinkageError_unsolvable (J - solvable R S0) \<and> solvable R S0 \<noteq> J
            | Inr fl' \<Rightarrow> J \<subseteq> solvable R S0"
        using "1.IH" [of rs' "(solved', fl', b')" solved' "(fl', b')" fl' b']
          r False True inv' by simp
      with True False r show ?thesis by simp
    next
      case F: False
      with r loop_inv_stalled [OF "1.prems"] have "solved' = solvable R S0" by simp
      with False F r show ?thesis by auto
    qed
  qed
qed


lemma loop_state_compile:
  "loop_state J n rs solved fl = Some (rs', solved', fl') \<Longrightarrow>
   compile_loop J rs solved fl = compile_loop J rs' solved' fl'"
proof (induction n arbitrary: rs solved fl)
  case 0
  then show ?case by simp
next
  case (Suc n)
  obtain rs1 solved1 fl1 b1 where r: "solve_round rs solved fl [] False = (rs1, solved1, fl1, b1)"
    by (cases "solve_round rs solved fl [] False") auto
  with Suc.prems have c: "solved1 \<noteq> J" "b1"
    and s: "loop_state J n rs1 solved1 fl1 = Some (rs', solved', fl')"
    by (auto split: if_splits)
  from r c have "compile_loop J rs solved fl = compile_loop J rs1 solved1 fl1"
    by (subst compile_loop.simps) simp
  with Suc.IH [OF s] show ?case by simp
qed

lemma loop_state_inv:
  "loop_inv R S0 rs solved \<Longrightarrow> loop_state J n rs solved fl = Some (rs', solved', fl') \<Longrightarrow>
   loop_inv R S0 rs' solved'"
proof (induction n arbitrary: rs solved fl)
  case 0
  then show ?case by simp
next
  case (Suc n)
  obtain rs1 solved1 fl1 b1 where r: "solve_round rs solved fl [] False = (rs1, solved1, fl1, b1)"
    by (cases "solve_round rs solved fl [] False") auto
  with Suc.prems(2) have s: "loop_state J n rs1 solved1 fl1 = Some (rs', solved', fl')"
    by (auto split: if_splits)
  from Suc.IH [OF loop_inv_round [OF Suc.prems(1) r] s] show ?case .
qed

lemma candidate_rules_target:
  "r \<in> set (candidate_rules iter self S) \<Longrightarrow>
   fst (snd r) \<in> set (iter (set (ljoints self) - S))"
  by (auto simp: candidate_rules_def extension_rules_def intersection_rules_def Let_def
      split: if_splits)

lemma validity_check_initial:
  assumes "validity_check self heap = Inr True"
  shows "initial_solved_joints self heap \<subseteq> set (ljoints self)"
proof -
  from assms have "find (\<lambda>d. attachment_joint d \<notin> set (ljoints self)) (drivers self) = None"
    by (auto simp: validity_check_def split: option.splits prod.splits)
  then have "\<forall>d\<in>set (drivers self). attachment_joint d \<in> set (ljoints self)"
    by (auto simp: find_None_iff)
  then show ?thesis
    by (auto simp: initial_solved_joints_def)
qed

lemma solvable_subset:
  assumes "S0 \<subseteq> J" and "\<forall>r\<in>set R. fst (snd r) \<in> J"
  shows "solvable R S0 \<subseteq> J"
proof
  fix j assume "j \<in> solvable R S0"
  then show "j \<in> J"
    using assms by induction auto
qed

lemma generate_solvable_subset:
  assumes "validity_check self heap = Inr True"
    and "set (iter (set (ljoints self) - initial_solved_joints self heap)) =
           set (ljoints self) - initial_solved_joints self heap"
  shows "solvable (candidate_rules iter self (initial_solved_joints self heap))
           (initial_solved_joints self heap) \<subseteq> set (ljoints self)"
proof (rule solvable_subset [OF validity_check_initial [OF assms(1)]])
  show "\<forall>r\<in>set (candidate_rules iter self (initial_solved_joints self heap)).
          fst (snd r) \<in> set (ljoints self)"
    using candidate_rules_target [of _ iter self "initial_solved_joints self heap"] assms(2)
    by auto
qed

text \<open>
  C1. For a linkage that passes \<^verbatim>\<open>validity_check\<close>, with the set of unsolved joints iterated
  element by element: when a pass of the fixpoint loop of \<^verbatim>\<open>generate_simulation_function\<close>,
  the first or a later one, activates no solver while some joint of the linkage is not in
  the solved set, the call fails with the error that names exactly the linkage's joints
  minus the solved set, which is not empty; when after a pass every joint of the linkage is
  solved, the call returns the function list and raises nothing. For the whole call: the
  only error it raises is that one, and the set it names is the set of joints that the
  candidate rules cannot reach from the fixed and driven joints; when it succeeds the
  reachable joints are exactly the joints of the linkage.
\<close>

theorem generate_simulation_function_result:
  assumes "validity_check self heap = Inr True"
    and "set (iter (set (ljoints self) - initial_solved_joints self heap)) =
           set (ljoints self) - initial_solved_joints self heap"
  shows "(generate_loop_state iter self heap n = Some (rs, solved, fl) \<and>
          solve_round rs solved fl [] False = (rs', solved', fl', False) \<and>
          \<not> set (ljoints self) \<subseteq> solved' \<longrightarrow>
            generate_simulation_function iter self heap =
              Inl (InvalidLinkageError_unsolvable (set (ljoints self) - solved')) \<and>
            set (ljoints self) - solved' \<noteq> {}) \<and>
         (generate_loop_state iter self heap n = Some (rs, solved, fl) \<and>
          solve_round rs solved fl [] False = (rs', solved', fl', b) \<and>
          set (ljoints self) \<subseteq> solved' \<longrightarrow>
            generate_simulation_function iter self heap = Inr fl') \<and>
         (generate_simulation_function iter self heap = Inl e \<longrightarrow>
            e = InvalidLinkageError_unsolvable
                  (set (ljoints self) -
                   solvable (candidate_rules iter self (initial_solved_joints self heap))
                     (initial_solved_joints self heap)) \<and>
            set (ljoints self) -
              solvable (candidate_rules iter self (initial_solved_joints self heap))
                (initial_solved_joints self heap) \<noteq> {}) \<and>
         (generate_simulation_function iter self heap = Inr function_list \<longrightarrow>
            solvable (candidate_rules iter self (initial_solved_joints self heap))
              (initial_solved_joints self heap) = set (ljoints self))"
proof -
  let ?J = "set (ljoints self)"
  let ?S0 = "initial_solved_joints self heap"
  let ?R = "candidate_rules iter self ?S0"
  let ?F0 = "map Driver_step (drivers self)"
  have inv: "loop_inv ?R ?S0 ?R ?S0"
    by (simp add: loop_inv_def solvable.initial subsetI)
  have g: "generate_simulation_function iter self heap = compile_loop ?J ?R ?S0 ?F0"
    by (simp add: generate_simulation_function_def Let_def)
  have l: "generate_loop_state iter self heap n = loop_state ?J n ?R ?S0 ?F0"
    by (simp add: generate_loop_state_def Let_def)
  from assms have sub: "solvable ?R ?S0 \<subseteq> ?J"
    by (rule generate_solvable_subset)
  have 1: "generate_simulation_function iter self heap =
             Inl (InvalidLinkageError_unsolvable (?J - solved')) \<and> ?J - solved' \<noteq> {}"
    if a: "generate_loop_state iter self heap n = Some (rs, solved, fl) \<and>
           solve_round rs solved fl [] False = (rs', solved', fl', False) \<and> \<not> ?J \<subseteq> solved'"
  proof -
    from a have ne: "solved' \<noteq> ?J" by blast
    from a l have "loop_state ?J n ?R ?S0 ?F0 = Some (rs, solved, fl)" by simp
    from loop_state_compile [OF this] g
    have "generate_simulation_function iter self heap = compile_loop ?J rs solved fl" by simp
    also from a ne have "\<dots> = Inl (InvalidLinkageError_unsolvable (?J - solved'))"
      by (subst compile_loop.simps) simp
    finally show ?thesis using a by blast
  qed
  have 2: "generate_simulation_function iter self heap = Inr fl'"
    if a: "generate_loop_state iter self heap n = Some (rs, solved, fl) \<and>
           solve_round rs solved fl [] False = (rs', solved', fl', b) \<and> ?J \<subseteq> solved'"
  proof -
    from a l have s: "loop_state ?J n ?R ?S0 ?F0 = Some (rs, solved, fl)" by simp
    from a have r: "solve_round rs solved fl [] False = (rs', solved', fl', b)" by simp
    from loop_inv_round [OF loop_state_inv [OF inv s] r]
    have "solved' \<subseteq> solvable ?R ?S0" by (simp add: loop_inv_def)
    with sub a have eq: "solved' = ?J" by blast
    from loop_state_compile [OF s] g
    have "generate_simulation_function iter self heap = compile_loop ?J rs solved fl" by simp
    also from r eq have "\<dots> = Inr fl'"
      by (subst compile_loop.simps) simp
    finally show ?thesis .
  qed
  from compile_loop_result [OF inv, of ?J ?F0] sub
  have 3: "generate_simulation_function iter self heap = Inl e \<longrightarrow>
      e = InvalidLinkageError_unsolvable (?J - solvable ?R ?S0) \<and> ?J - solvable ?R ?S0 \<noteq> {}"
    and 4: "generate_simulation_function iter self heap = Inr function_list \<longrightarrow>
      solvable ?R ?S0 = ?J"
    by (auto simp: g)
  from 1 2 3 4 show ?thesis by blast
qed


lemma initial_chain:
  "initial_solved_joints lk_chain heap_chain = {0, 4, 5}"
  "initial_solved_joints lk_chain heap_slack = {4, 5}"
  by (auto simp: initial_solved_joints_def lk_chain_def heap_chain_def heap_slack_def
      joint_J_def joint_fixed_def joint_A_def joint_B_def)

lemma valid_chain: "validity_check lk_chain heap = Inr True"
  by (simp add: validity_check_def lk_chain_def bar_p_def bar_q_def)

lemma iter_chain:
  "iter_w (set (ljoints lk_chain) - {0, 4, 5}) = [2, 3]"
  "iter_w (set (ljoints lk_chain) - {4, 5}) = [0, 2, 3]"
  by (simp_all add: iter_w_def lk_chain_def)

lemma candidate_rules_chain:
  "candidate_rules iter_w lk_chain {0, 4, 5} = rules_chain"
  "candidate_rules iter_w lk_chain {4, 5} = rules_slack"
proof -
  have bc: "bars_connected_to_joint lk_chain 0 = [bar_q]"
    "bars_connected_to_joint lk_chain 2 = [bar_q]"
    "bars_connected_to_joint lk_chain 3 = [bar_p, bar_q]"
    by (simp_all add: bars_connected_to_joint_def lk_chain_def bar_p_def bar_q_def)
  have j: "joints bar_p = [4, 5, 3]" "joints bar_q = [3, 0, 2]"
    by (simp_all add: bar_p_def bar_q_def)
  have i: "iter_w ({4, 5, 3} - {3}) = [4, 5]" "iter_w ({3, 0, 2} - {3}) = [0, 2]"
    "iter_w {4, 5} = [4, 5]" "iter_w {0, 2} = [0, 2]"
    by (simp_all add: iter_w_def)
  show "candidate_rules iter_w lk_chain {0, 4, 5} = rules_chain"
    by (simp add: candidate_rules_def iter_chain bc extension_rules_def intersection_rules_def j i
        solver_for_joint_on_bar_given_joints_def solver_for_intersection_def Let_def
        rules_chain_def rule_2_def rule_3_def)
  show "candidate_rules iter_w lk_chain {4, 5} = rules_slack"
    by (simp add: candidate_rules_def iter_chain bc extension_rules_def intersection_rules_def j i
        solver_for_joint_on_bar_given_joints_def solver_for_intersection_def Let_def
        rules_slack_def rules_chain_def rule_2_def rule_3_def)
qed

lemma pass_chain:
  "solve_round rules_chain {0, 4, 5} [] [] False =
     (remove1 rule_3 rules_chain, {3, 0, 4, 5}, [snd (snd rule_3)], True)"
  "solve_round (remove1 rule_3 rules_chain) {3, 0, 4, 5} [snd (snd rule_3)] [] False =
     (remove1 rule_2 (remove1 rule_3 rules_chain), {2, 3, 0, 4, 5},
      [snd (snd rule_3), snd (snd rule_2)], True)"
  by (simp_all add: rules_chain_def rule_2_def rule_3_def)

lemma pass_slack:
  "solve_round rules_slack {4, 5} [] [] False =
     (remove1 rule_3 rules_slack, {3, 4, 5}, [snd (snd rule_3)], True)"
  "solve_round (remove1 rule_3 rules_slack) {3, 4, 5} [snd (snd rule_3)] [] False =
     (remove1 rule_3 rules_slack, {3, 4, 5}, [snd (snd rule_3)], False)"
  by (simp_all add: rules_slack_def rules_chain_def rule_2_def rule_3_def)

lemma joints_chain:
  "set (ljoints lk_chain) = {0, 2, 3, 4, 5}"
  "{3, 0, 4, 5} \<noteq> {0, 2, 3, 4, 5 :: nat}" "{3, 4, 5} \<noteq> {0, 2, 3, 4, 5 :: nat}"
  "{0, 2, 3, 4, 5} \<subseteq> {2, 3, 0, 4, 5 :: nat}" "\<not> {0, 2, 3, 4, 5} \<subseteq> {3, 4, 5 :: nat}"
  "{0, 2, 3, 4, 5} - {3, 4, 5} = {0, 2 :: nat}"
proof -
  have m: "(2 :: nat) \<notin> {3, 0, 4, 5}" "(2 :: nat) \<notin> {3, 4, 5}" "(2 :: nat) \<in> {0, 2, 3, 4, 5}"
    by simp_all
  from m(1, 3) show "{3, 0, 4, 5} \<noteq> {0, 2, 3, 4, 5 :: nat}" by metis
  from m(2, 3) show "{3, 4, 5} \<noteq> {0, 2, 3, 4, 5 :: nat}" by metis
  show "set (ljoints lk_chain) = {0, 2, 3, 4, 5}" by (simp add: lk_chain_def)
  show "{0, 2, 3, 4, 5} \<subseteq> {2, 3, 0, 4, 5 :: nat}" by simp
  show "\<not> {0, 2, 3, 4, 5} \<subseteq> {3, 4, 5 :: nat}" by simp
  show "{0, 2, 3, 4, 5} - {3, 4, 5} = {0, 2 :: nat}" by auto
qed

lemma loop_state_chain:
  "generate_loop_state iter_w lk_chain heap_chain 1 =
     Some (remove1 rule_3 rules_chain, {3, 0, 4, 5}, [snd (snd rule_3)])"
  "generate_loop_state iter_w lk_chain heap_slack 1 =
     Some (remove1 rule_3 rules_slack, {3, 4, 5}, [snd (snd rule_3)])"
proof -
  have d: "drivers lk_chain = []" by (simp add: lk_chain_def)
  show "generate_loop_state iter_w lk_chain heap_chain 1 =
     Some (remove1 rule_3 rules_chain, {3, 0, 4, 5}, [snd (snd rule_3)])"
    by (simp add: generate_loop_state_def initial_chain candidate_rules_chain d pass_chain
        joints_chain del: solve_round.simps)
  show "generate_loop_state iter_w lk_chain heap_slack 1 =
     Some (remove1 rule_3 rules_slack, {3, 4, 5}, [snd (snd rule_3)])"
    by (simp add: generate_loop_state_def initial_chain candidate_rules_chain d pass_slack
        joints_chain del: solve_round.simps)
qed

theorem generate_simulation_function_result_witness:
  "validity_check lk_chain heap_slack = Inr True \<and>
   set (iter_w (set (ljoints lk_chain) - initial_solved_joints lk_chain heap_slack)) =
     set (ljoints lk_chain) - initial_solved_joints lk_chain heap_slack \<and>
   candidate_rules iter_w lk_chain (initial_solved_joints lk_chain heap_slack) = rules_slack \<and>
   generate_loop_state iter_w lk_chain heap_slack 1 =
     Some (remove1 rule_3 rules_slack, {3, 4, 5}, [snd (snd rule_3)]) \<and>
   solve_round (remove1 rule_3 rules_slack) {3, 4, 5} [snd (snd rule_3)] [] False =
     (remove1 rule_3 rules_slack, {3, 4, 5}, [snd (snd rule_3)], False) \<and>
   \<not> set (ljoints lk_chain) \<subseteq> {3, 4, 5} \<and>
   generate_simulation_function iter_w lk_chain heap_slack =
     Inl (InvalidLinkageError_unsolvable {0, 2}) \<and>
   set (ljoints lk_chain) - solvable rules_slack {4, 5} = {0, 2} \<and>
   validity_check lk_chain heap_chain = Inr True \<and>
   set (iter_w (set (ljoints lk_chain) - initial_solved_joints lk_chain heap_chain)) =
     set (ljoints lk_chain) - initial_solved_joints lk_chain heap_chain \<and>
   candidate_rules iter_w lk_chain (initial_solved_joints lk_chain heap_chain) = rules_chain \<and>
   generate_loop_state iter_w lk_chain heap_chain 1 =
     Some (remove1 rule_3 rules_chain, {3, 0, 4, 5}, [snd (snd rule_3)]) \<and>
   solve_round (remove1 rule_3 rules_chain) {3, 0, 4, 5} [snd (snd rule_3)] [] False =
     (remove1 rule_2 (remove1 rule_3 rules_chain), {2, 3, 0, 4, 5},
      [snd (snd rule_3), snd (snd rule_2)], True) \<and>
   set (ljoints lk_chain) \<subseteq> {2, 3, 0, 4, 5} \<and>
   generate_simulation_function iter_w lk_chain heap_chain =
     Inr [snd (snd rule_3), snd (snd rule_2)] \<and>
   solvable rules_chain {0, 4, 5} = set (ljoints lk_chain)"
proof -
  have i: "set (iter_w (set (ljoints lk_chain) - initial_solved_joints lk_chain heap_slack)) =
       set (ljoints lk_chain) - initial_solved_joints lk_chain heap_slack"
    "set (iter_w (set (ljoints lk_chain) - initial_solved_joints lk_chain heap_chain)) =
       set (ljoints lk_chain) - initial_solved_joints lk_chain heap_chain"
    by (simp_all add: initial_chain iter_chain) (auto simp: joints_chain(1))
  note slack = generate_simulation_function_result [where self = lk_chain and heap = heap_slack and iter = iter_w,
      OF valid_chain i(1)]
  note chain = generate_simulation_function_result [where self = lk_chain and heap = heap_chain and iter = iter_w,
      OF valid_chain i(2)]
  from slack [where n = 1 and rs = "remove1 rule_3 rules_slack" and solved = "{3, 4, 5}" and
      fl = "[snd (snd rule_3)]" and rs' = "remove1 rule_3 rules_slack" and solved' = "{3, 4, 5}" and
      fl' = "[snd (snd rule_3)]"] loop_state_chain(2) pass_slack(2) joints_chain
  have 1: "generate_simulation_function iter_w lk_chain heap_slack =
      Inl (InvalidLinkageError_unsolvable {0, 2})"
    by (simp del: solve_round.simps)
  from slack [where e = "InvalidLinkageError_unsolvable {0, 2}"] 1
  have 2: "set (ljoints lk_chain) - solvable rules_slack {4, 5} = {0, 2}"
    by (simp add: initial_chain candidate_rules_chain)
  from chain [where n = 1 and rs = "remove1 rule_3 rules_chain" and solved = "{3, 0, 4, 5}" and
      fl = "[snd (snd rule_3)]" and rs' = "remove1 rule_2 (remove1 rule_3 rules_chain)" and
      solved' = "{2, 3, 0, 4, 5}" and fl' = "[snd (snd rule_3), snd (snd rule_2)]" and b = True]
    loop_state_chain(1) pass_chain(2) joints_chain
  have 3: "generate_simulation_function iter_w lk_chain heap_chain =
      Inr [snd (snd rule_3), snd (snd rule_2)]"
    by (simp del: solve_round.simps)
  from chain [where function_list = "[snd (snd rule_3), snd (snd rule_2)]"] 3
  have 4: "solvable rules_chain {0, 4, 5} = set (ljoints lk_chain)"
    by (simp add: initial_chain candidate_rules_chain)
  from 1 2 3 4 i valid_chain loop_state_chain pass_chain(2) pass_slack(2) joints_chain
  show ?thesis
    by (simp add: initial_chain candidate_rules_chain del: solve_round.simps)
qed


section \<open>The distance check and the cache\<close>

lemma check_pairs_None:
  "check_pairs bar ps heap vm = None \<Longrightarrow> (j0, j1) \<in> set ps \<Longrightarrow>
   \<exists>p1 p2 d. location (heap j0) = Some p1 \<and> location (heap j1) = Some p2 \<and>
     joint_distance bar j0 j1 = Inr d \<and> \<bar>d - distance p1 p2\<bar> < vm"
  by (induction ps) (auto split: option.splits sum.splits if_splits)

lemma check_bars_None:
  "check_bars bs heap vm = None \<Longrightarrow> b \<in> set bs \<Longrightarrow>
   check_pairs b (pairwise_py (joints b)) heap vm = None"
  by (induction bs) (auto split: option.splits)

lemma origin_distance_not_distance_error:
  "origin_distance_loop segs j xs acc \<noteq> Inl (InvalidLinkageError_distance d lbl l0 l1)"
  by (induction segs j xs acc rule: origin_distance_loop.induct) auto

lemma joint_distance_not_distance_error:
  "joint_distance bar j0 j1 \<noteq> Inl (InvalidLinkageError_distance d lbl l0 l1)"
  by (auto simp: joint_distance_def origin_distance_def origin_distance_not_distance_error
      split: sum.splits)

lemma check_pairs_distance:
  "check_pairs bar ps heap vm = Some (InvalidLinkageError_distance d lbl l0 l1) \<Longrightarrow>
   \<exists>pr\<in>set ps. violation bar heap vm pr (InvalidLinkageError_distance d lbl l0 l1)"
proof (induction ps)
  case Nil
  then show ?case by simp
next
  case (Cons p ps)
  obtain a b where p: "p = (a, b)" by (cases p)
  show ?case
  proof (cases "check_pairs bar ps heap vm = Some (InvalidLinkageError_distance d lbl l0 l1)")
    case True
    from Cons.IH [OF this] show ?thesis by auto
  next
    case False
    with Cons.prems p have "violation bar heap vm p (InvalidLinkageError_distance d lbl l0 l1)"
      using joint_distance_not_distance_error [of bar a b d lbl l0 l1]
      by (auto simp: violation_def split: option.splits sum.splits if_splits)
    then show ?thesis by simp
  qed
qed

lemma check_bars_distance:
  "check_bars bs heap vm = Some (InvalidLinkageError_distance d lbl l0 l1) \<Longrightarrow>
   \<exists>b\<in>set bs. \<exists>pr\<in>set (pairwise_py (joints b)).
      violation b heap vm pr (InvalidLinkageError_distance d lbl l0 l1)"
proof (induction bs)
  case Nil
  then show ?case by simp
next
  case (Cons b bs)
  show ?case
  proof (cases "check_pairs b (pairwise_py (joints b)) heap vm")
    case None
    with Cons show ?thesis by auto
  next
    case (Some e)
    with Cons.prems have "check_pairs b (pairwise_py (joints b)) heap vm =
        Some (InvalidLinkageError_distance d lbl l0 l1)" by simp
    from check_pairs_distance [OF this] show ?thesis by simp
  qed
qed

text \<open>No function of the pipeline raises the distance error.\<close>

lemma run_step_not_distance_error:
  "run_step f time heap \<noteq> Inl (InvalidLinkageError_distance d lbl l0 l1)"
proof (cases f)
  case (Driver_step x)
  then show ?thesis
    by (auto simp: update_attachment_point_def fmod_def setattr_location_def
        split: sum.splits if_splits)
next
  case (Intersection_step u a b abar bbar)
  then show ?thesis
    using joint_distance_not_distance_error
    by (auto simp: circular_intersection_def py_sqrt_def set_location_def setattr_location_def Let_def
        split: sum.splits option.splits if_splits prod.splits)
next
  case (Extension_step j bar js)
  then show ?thesis
    using origin_distance_not_distance_error
    by (auto simp: origin_distance_def set_location_def setattr_location_def
        split: sum.splits option.splits if_splits list.splits)
qed

lemma run_steps_not_distance_error:
  "fst (run_steps fl time heap) \<noteq> Some (InvalidLinkageError_distance d lbl l0 l1)"
  by (induction fl arbitrary: heap) (auto simp: run_step_not_distance_error split: sum.splits)


lemma origin_distance_loop_defined:
  "j \<in> set js \<Longrightarrow> n + length js \<le> length segs + 1 \<Longrightarrow>
   \<exists>d. origin_distance_loop segs j (enumerate n js) acc = Inr d"
proof (induction js arbitrary: n acc)
  case Nil
  then show ?case by simp
next
  case (Cons x js)
  show ?case
  proof (cases "j = x")
    case True
    then show ?thesis by simp
  next
    case False
    with Cons.prems have "j \<in> set js" "Suc n + length js \<le> length segs + 1" "n < length segs"
      by (cases js; auto)+
    with Cons.IH [of "Suc n"] False show ?thesis by simp
  qed
qed

lemma origin_distance_defined:
  "j \<in> set (joints b) \<Longrightarrow> length (joints b) \<le> length (segment_lengths b) + 1 \<Longrightarrow>
   \<exists>d. origin_distance b j = Inr d"
  using origin_distance_loop_defined [of j "joints b" 0 "segment_lengths b" 0]
  by (simp add: origin_distance_def)

lemma joint_distance_defined:
  "j0 \<in> set (joints b) \<Longrightarrow> j1 \<in> set (joints b) \<Longrightarrow>
   length (joints b) \<le> length (segment_lengths b) + 1 \<Longrightarrow>
   \<exists>d. joint_distance b j0 j1 = Inr d"
  using origin_distance_defined [of j0 b] origin_distance_defined [of j1 b]
  by (auto simp: joint_distance_def)

lemma pairwise_py_set:
  assumes "(a, b) \<in> set (pairwise_py xs)"
  shows "a \<in> set xs \<and> b \<in> set xs"
proof (cases xs)
  case Nil
  with assms show ?thesis by (simp add: pairwise_py_def)
next
  case (Cons x r)
  with assms have "(a, b) \<in> set (zip (x # r) r)" by (simp add: pairwise_py_def)
  from set_zip_leftD [OF this] set_zip_rightD [OF this] Cons show ?thesis by auto
qed

lemma check_pairs_located:
  assumes "bar_located bar heap" and "set ps \<subseteq> set (pairwise_py (joints bar))"
  shows "case check_pairs bar ps heap vm of
           None \<Rightarrow> \<forall>pr\<in>set ps. distance_ok bar heap vm pr
         | Some e \<Rightarrow> \<exists>pr\<in>set ps. violation bar heap vm pr e"
  using assms(2)
proof (induction ps)
  case Nil
  then show ?case by simp
next
  case (Cons p ps)
  obtain j0 j1 where p: "p = (j0, j1)" by (cases p)
  with Cons.prems have "(j0, j1) \<in> set (pairwise_py (joints bar))" by simp
  from pairwise_py_set [OF this] have in_bar: "j0 \<in> set (joints bar)" "j1 \<in> set (joints bar)"
    by simp_all
  with assms(1) have "location (heap j0) \<noteq> None" "location (heap j1) \<noteq> None"
    by (simp_all add: bar_located_def)
  then obtain p1 p2 where loc: "location (heap j0) = Some p1" "location (heap j1) = Some p2"
    by blast
  from in_bar assms(1) joint_distance_defined [of j0 bar j1]
  obtain d where d: "joint_distance bar j0 j1 = Inr d"
    by (auto simp: bar_located_def)
  from Cons have IH: "case check_pairs bar ps heap vm of
           None \<Rightarrow> \<forall>pr\<in>set ps. distance_ok bar heap vm pr
         | Some e \<Rightarrow> \<exists>pr\<in>set ps. violation bar heap vm pr e" by simp
  show ?case
  proof (cases "\<bar>d - distance p1 p2\<bar> < vm")
    case True
    with loc d p have "distance_ok bar heap vm p" by (simp add: distance_ok_def)
    with True loc d p IH show ?thesis by (auto split: option.splits)
  next
    case False
    with loc d p have "violation bar heap vm p (InvalidLinkageError_distance d (bar_label bar)
        (label (heap j0)) (label (heap j1)))" by (simp add: violation_def)
    with False loc d p show ?thesis by simp
  qed
qed

lemma violation_not_ok: "violation bar heap vm pr e \<Longrightarrow> \<not> distance_ok bar heap vm pr"
  by (auto simp: violation_def distance_ok_def)

lemma check_bars_located:
  assumes "\<forall>b\<in>set bs. bar_located b heap"
  shows "case check_bars bs heap vm of
           None \<Rightarrow> \<forall>b\<in>set bs. \<forall>pr\<in>set (pairwise_py (joints b)). distance_ok b heap vm pr
         | Some e \<Rightarrow> \<exists>b\<in>set bs. \<exists>pr\<in>set (pairwise_py (joints b)). violation b heap vm pr e"
  using assms
proof (induction bs)
  case Nil
  then show ?case by simp
next
  case (Cons b bs)
  then have "bar_located b heap" by simp
  from check_pairs_located [OF this subset_refl, of vm] Cons show ?case
    by (auto split: option.splits)
qed

lemma check_bars_fails:
  assumes "\<forall>b\<in>set bs. bar_located b heap" and "b \<in> set bs"
    and "pr \<in> set (pairwise_py (joints b))" and "\<not> distance_ok b heap vm pr"
  shows "\<exists>e. check_bars bs heap vm = Some e \<and>
           (\<exists>b'\<in>set bs. \<exists>pr'\<in>set (pairwise_py (joints b')). violation b' heap vm pr' e)"
  using check_bars_located [OF assms(1), of vm] assms(2-4)
  by (cases "check_bars bs heap vm") auto

lemma check_bars_ok:
  "check_bars bs heap vm = None \<Longrightarrow> b \<in> set bs \<Longrightarrow> pr \<in> set (pairwise_py (joints b)) \<Longrightarrow>
   distance_ok b heap vm pr"
  using check_pairs_None [OF check_bars_None, of bs heap vm b "fst pr" "snd pr"]
  by (simp add: distance_ok_def)


lemma ensure_simulation_function_cache [simp]:
  "ensure_simulation_function iter (self\<lparr>cache := c\<rparr>) heap = ensure_simulation_function iter self heap"
  by (simp add: ensure_simulation_function_def generate_simulation_function_def
      initial_solved_joints_def candidate_rules_def bars_connected_to_joint_def
      cong: option.case_cong)

lemma simulate_to_time_miss:
  assumes "cache_entry self \<lfloor>cache_accuraccy self * t\<rfloor> = None" and "0 \<le> t" and "t \<le> 1"
  shows "simulate_to_time iter (self, heap) t =
    (case ensure_simulation_function iter self heap of
       Inl e \<Rightarrow> (Some e, (self\<lparr>cache := Some (cache_dict self)\<rparr>, heap))
     | Inr fl \<Rightarrow>
         (case sim_function (bars self) fl validity_margin_default t heap of
            (Some e, heap') \<Rightarrow>
              (Some e, (self\<lparr>cache := Some (cache_dict self), simulation_function := Some fl\<rparr>, heap'))
          | (None, heap') \<Rightarrow>
              (None, (self\<lparr>cache := Some ((cache_dict self)
                          (\<lfloor>cache_accuraccy self * t\<rfloor> := Some (snapshot_of self heap'))),
                        simulation_function := Some fl\<rparr>, heap'))))"
  using assms
  by (simp add: simulate_to_time_def Let_def cache_dict_def snapshot_of_def
      split: sum.splits option.splits prod.splits)

lemma generate_simulation_function_error:
  assumes "generate_simulation_function iter self heap = Inl e"
  shows "\<exists>U. e = InvalidLinkageError_unsolvable U"
proof -
  let ?S0 = "initial_solved_joints self heap"
  let ?R = "candidate_rules iter self ?S0"
  have "loop_inv ?R ?S0 ?R ?S0"
    by (simp add: loop_inv_def solvable.initial subsetI)
  from compile_loop_result [OF this, of "set (ljoints self)" "map Driver_step (drivers self)"] assms
  show ?thesis
    by (simp add: generate_simulation_function_def Let_def)
qed

lemma ensure_not_distance_error:
  "ensure_simulation_function iter self heap \<noteq> Inl (InvalidLinkageError_distance d lbl l0 l1)"
proof
  assume "ensure_simulation_function iter self heap = Inl (InvalidLinkageError_distance d lbl l0 l1)"
  then have "generate_simulation_function iter self heap =
      Inl (InvalidLinkageError_distance d lbl l0 l1)"
    by (simp add: ensure_simulation_function_def split: option.splits)
  from generate_simulation_function_error [OF this] show False by simp
qed

lemma simulate_to_time_out_of_range:
  "\<not> (0 \<le> t \<and> t \<le> 1) \<Longrightarrow>
   simulate_to_time iter (self, heap) t = (Some (ValueError_time t), (self, heap))"
  by (simp add: simulate_to_time_def)


lemma pairwise_py_nth:
  assumes "Suc i < length xs"
  shows "(xs ! i, xs ! Suc i) \<in> set (pairwise_py xs)"
proof -
  from assms have "i < length (zip xs (tl xs))" by simp
  from nth_mem [OF this] assms show ?thesis
    by (simp add: pairwise_py_def nth_tl)
qed

lemma simulate_to_time_returns_ok:
  assumes "cache_entry self \<lfloor>cache_accuraccy self * t\<rfloor> = None"
    and r: "simulate_to_time iter (self, heap) t = (None, st')"
  shows "\<forall>b\<in>set (bars self). \<forall>pr\<in>set (pairwise_py (joints b)).
           distance_ok b (snd st') validity_margin_default pr"
proof -
  from r simulate_to_time_out_of_range [of t iter self heap] have t: "0 \<le> t" "t \<le> 1"
    by auto
  from r simulate_to_time_miss [OF assms(1) t, of iter heap]
  obtain fl' where "sim_function (bars self) fl' validity_margin_default t heap = (None, snd st')"
    by (auto split: sum.splits option.splits prod.splits)
  then have "check_bars (bars self) (snd st') validity_margin_default = None"
    by (auto simp: sim_function_def split: prod.splits option.splits)
  then show ?thesis
    by (blast intro: check_bars_ok)
qed

lemma simulate_to_time_distance_error:
  assumes "cache_entry self \<lfloor>cache_accuraccy self * t\<rfloor> = None"
    and r: "simulate_to_time iter (self, heap) t =
              (Some (InvalidLinkageError_distance d lbl l0 l1), st')"
  shows "\<exists>b\<in>set (bars self). \<exists>pr\<in>set (pairwise_py (joints b)).
           violation b (snd st') validity_margin_default pr
             (InvalidLinkageError_distance d lbl l0 l1)"
proof -
  let ?e = "InvalidLinkageError_distance d lbl l0 l1"
  from r simulate_to_time_out_of_range [of t iter self heap] have t: "0 \<le> t" "t \<le> 1"
    by auto
  from r simulate_to_time_miss [OF assms(1) t, of iter heap]
    ensure_not_distance_error [of iter self heap d lbl l0 l1]
  obtain fl' where "sim_function (bars self) fl' validity_margin_default t heap = (Some ?e, snd st')"
    by (auto split: sum.splits option.splits prod.splits)
  with run_steps_not_distance_error [of fl' t heap d lbl l0 l1]
  have "check_bars (bars self) (snd st') validity_margin_default = Some ?e"
    by (auto simp: sim_function_def split: prod.splits option.splits)
  from check_bars_distance [OF this] show ?thesis .
qed

lemma simulate_to_time_raises:
  assumes "cache_entry self \<lfloor>cache_accuraccy self * t\<rfloor> = None"
    and t: "0 \<le> t" "t \<le> 1"
    and fl: "ensure_simulation_function iter self heap = Inr fl"
    and run: "run_steps fl t heap = (None, heap1)"
    and loc: "\<forall>b\<in>set (bars self). bar_located b heap1"
    and b: "b \<in> set (bars self)" "pr \<in> set (pairwise_py (joints b))"
    and bad: "\<not> distance_ok b heap1 validity_margin_default pr"
  shows "\<exists>e self'. simulate_to_time iter (self, heap) t = (Some e, (self', heap1)) \<and>
           (\<exists>b'\<in>set (bars self). \<exists>pr'\<in>set (pairwise_py (joints b')).
              violation b' heap1 validity_margin_default pr' e)"
proof -
  from check_bars_fails [OF loc b bad]
  obtain e where e: "check_bars (bars self) heap1 validity_margin_default = Some e"
    and v: "\<exists>b'\<in>set (bars self). \<exists>pr'\<in>set (pairwise_py (joints b')).
              violation b' heap1 validity_margin_default pr' e"
    by blast
  from run e have "sim_function (bars self) fl validity_margin_default t heap = (Some e, heap1)"
    by (simp add: sim_function_def)
  with fl simulate_to_time_miss [OF assms(1) t, of iter heap]
  have "simulate_to_time iter (self, heap) t =
      (Some e, (self\<lparr>cache := Some (cache_dict self), simulation_function := Some fl\<rparr>, heap1))"
    by simp
  with v show ?thesis
    by blast
qed

lemma simulate_to_time_declared_length:
  assumes "cache_entry self \<lfloor>cache_accuraccy self * t\<rfloor> = None"
    and r: "simulate_to_time iter (self, heap) t = (None, st')"
    and b: "b \<in> set (bars self)" "Bar lbl js segs = Inr b"
    and ok: "distinct js" "\<forall>s\<in>set segs. 0 \<le> s"
    and i: "Suc i < length js"
  shows "\<exists>p1 p2. location (snd st' (js ! i)) = Some p1 \<and>
           location (snd st' (js ! Suc i)) = Some p2 \<and>
           \<bar>segs ! i - distance p1 p2\<bar> < validity_margin_default"
proof -
  from b(2) have js: "joints b = js"
    by (auto simp: Bar_def split: if_splits)
  from pairwise_py_nth [OF i] js
  have "(js ! i, js ! Suc i) \<in> set (pairwise_py (joints b))" by simp
  with simulate_to_time_returns_ok [OF assms(1) r] b(1)
  have "distance_ok b (snd st') validity_margin_default (js ! i, js ! Suc i)"
    by blast
  with joint_distance_adjacent [OF b(2) ok i] show ?thesis
    by (auto simp: distance_ok_def)
qed

text \<open>
  C2 (amended). For a call of \<^verbatim>\<open>simulate_to_time(t)\<close> that finds no cache entry, so that it
  executes the pipeline: if it returns, then for every bar and every pair of chain-adjacent
  joints of the bar the locations are known and the distance of the two locations differs
  from \<^verbatim>\<open>bar.joint_distance\<close> of the pair by less than 0.001; and for a bar whose joints are
  pairwise distinct and whose segment lengths are all non-negative, it differs from the
  segment length declared between the two joints by less than 0.001. If the call raises
  the distance error, the error names a bar of the linkage and a pair of adjacent joints of
  it whose difference from \<^verbatim>\<open>bar.joint_distance\<close> is not below 0.001. And if the functions
  of the pipeline have run, all bars are located and some pair is not within the margin,
  the call raises the distance error of such a pair and leaves the joints as the pipeline
  has set them.
\<close>

theorem simulate_to_time_distance_check:
  assumes "cache_entry self \<lfloor>cache_accuraccy self * t\<rfloor> = None"
  shows "(simulate_to_time iter (self, heap) t = (None, st') \<longrightarrow>
            (\<forall>b\<in>set (bars self). \<forall>pr\<in>set (pairwise_py (joints b)).
               distance_ok b (snd st') validity_margin_default pr)) \<and>
         (simulate_to_time iter (self, heap) t = (None, st') \<and>
          c \<in> set (bars self) \<and> Bar lbl' js segs = Inr c \<and> distinct js \<and>
          (\<forall>s\<in>set segs. 0 \<le> s) \<and> Suc i < length js \<longrightarrow>
            (\<exists>p1 p2. location (snd st' (js ! i)) = Some p1 \<and>
               location (snd st' (js ! Suc i)) = Some p2 \<and>
               \<bar>segs ! i - distance p1 p2\<bar> < validity_margin_default)) \<and>
         (simulate_to_time iter (self, heap) t =
            (Some (InvalidLinkageError_distance d lbl l0 l1), st') \<longrightarrow>
            (\<exists>b\<in>set (bars self). \<exists>pr\<in>set (pairwise_py (joints b)).
               violation b (snd st') validity_margin_default pr
                 (InvalidLinkageError_distance d lbl l0 l1))) \<and>
         (0 \<le> t \<and> t \<le> 1 \<and> ensure_simulation_function iter self heap = Inr fl \<and>
          run_steps fl t heap = (None, heap') \<and> (\<forall>b\<in>set (bars self). bar_located b heap') \<and>
          b \<in> set (bars self) \<and> pr \<in> set (pairwise_py (joints b)) \<and>
          \<not> distance_ok b heap' validity_margin_default pr \<longrightarrow>
            (\<exists>e self'. simulate_to_time iter (self, heap) t = (Some e, (self', heap')) \<and>
               (\<exists>b'\<in>set (bars self). \<exists>pr'\<in>set (pairwise_py (joints b')).
                  violation b' heap' validity_margin_default pr' e)))"
proof -
  have 1: "\<forall>b\<in>set (bars self). \<forall>pr\<in>set (pairwise_py (joints b)).
             distance_ok b (snd st') validity_margin_default pr"
    if "simulate_to_time iter (self, heap) t = (None, st')"
    using simulate_to_time_returns_ok [OF assms that] .
  have 2: "\<exists>p1 p2. location (snd st' (js ! i)) = Some p1 \<and>
             location (snd st' (js ! Suc i)) = Some p2 \<and>
             \<bar>segs ! i - distance p1 p2\<bar> < validity_margin_default"
    if "simulate_to_time iter (self, heap) t = (None, st') \<and>
        c \<in> set (bars self) \<and> Bar lbl' js segs = Inr c \<and> distinct js \<and>
        (\<forall>s\<in>set segs. 0 \<le> s) \<and> Suc i < length js"
    using simulate_to_time_declared_length [OF assms, of iter heap st' c lbl' js segs i] that
    by blast
  have 3: "\<exists>b\<in>set (bars self). \<exists>pr\<in>set (pairwise_py (joints b)).
             violation b (snd st') validity_margin_default pr
               (InvalidLinkageError_distance d lbl l0 l1)"
    if "simulate_to_time iter (self, heap) t =
          (Some (InvalidLinkageError_distance d lbl l0 l1), st')"
    using simulate_to_time_distance_error [OF assms that] .
  have 4: "\<exists>e self'. simulate_to_time iter (self, heap) t = (Some e, (self', heap')) \<and>
             (\<exists>b'\<in>set (bars self). \<exists>pr'\<in>set (pairwise_py (joints b')).
                violation b' heap' validity_margin_default pr' e)"
    if "0 \<le> t \<and> t \<le> 1 \<and> ensure_simulation_function iter self heap = Inr fl \<and>
        run_steps fl t heap = (None, heap') \<and> (\<forall>b\<in>set (bars self). bar_located b heap') \<and>
        b \<in> set (bars self) \<and> pr \<in> set (pairwise_py (joints b)) \<and>
        \<not> distance_ok b heap' validity_margin_default pr"
    using simulate_to_time_raises [OF assms, of iter heap fl heap' b pr] that
    by blast
  from 1 2 3 4 show ?thesis
    by blast
qed

text \<open>
  C9. For a call of \<^verbatim>\<open>simulate_to_time(t)\<close> that finds no cache entry: if the call raises,
  the cache has no entry for the bucket of \<open>t\<close> afterwards, so a later call for the bucket
  executes the pipeline again; if it returns, the entry of the bucket is the snapshot of
  the non-fixed joints.
\<close>

theorem simulate_to_time_failure_not_cached:
  assumes "cache_entry self \<lfloor>cache_accuraccy self * t\<rfloor> = None"
  shows "(simulate_to_time iter (self, heap) t = (Some e, (self', heap')) \<longrightarrow>
            cache_entry self' \<lfloor>cache_accuraccy self' * t\<rfloor> = None) \<and>
         (simulate_to_time iter (self, heap) t = (None, (self', heap')) \<longrightarrow>
            cache_entry self' \<lfloor>cache_accuraccy self' * t\<rfloor> = Some (snapshot_of self heap'))"
proof (cases "0 \<le> t \<and> t \<le> 1")
  case False
  from simulate_to_time_out_of_range [OF this, of iter self heap] assms show ?thesis
    by auto
next
  case True
  then have t: "0 \<le> t" "t \<le> 1" by simp_all
  from assms have c: "cache_dict self \<lfloor>cache_accuraccy self * t\<rfloor> = None"
    by (simp add: cache_entry_def cache_dict_def split: option.splits)
  from simulate_to_time_miss [OF assms t, of iter heap] c show ?thesis
    by (auto simp: cache_entry_def split: sum.splits option.splits prod.splits)
qed


lemma initial_solved_arm:
  "initial_solved_joints lk_arm heap_arm = {2, 3}" "initial_solved_joints lk_long heap_arm = {2, 3}"
  by (auto simp: initial_solved_joints_def lk_arm_def lk_long_def heap_arm_def crank_arm_def
      joint_pivot_def joint_tip_def)

lemma ensure_arm:
  "ensure_simulation_function iter_w lk_arm heap_arm = Inr [Driver_step crank_arm]"
  "ensure_simulation_function iter_w lk_long heap_arm = Inr [Driver_step crank_arm]"
proof -
  have r: "candidate_rules iter_w lk_arm {2, 3} = []" "candidate_rules iter_w lk_long {2, 3} = []"
    by (simp_all add: candidate_rules_def lk_arm_def lk_long_def iter_w_def)
  have f: "ljoints lk_arm = [2, 3]" "drivers lk_arm = [crank_arm]" "simulation_function lk_arm = None"
    "ljoints lk_long = [2, 3]" "drivers lk_long = [crank_arm]" "simulation_function lk_long = None"
    by (simp_all add: lk_arm_def lk_long_def)
  have s: "{3, 2} = {2, 3 :: nat}" by auto
  show "ensure_simulation_function iter_w lk_arm heap_arm = Inr [Driver_step crank_arm]"
    by (simp add: ensure_simulation_function_def generate_simulation_function_def
        initial_solved_arm r f compile_loop.simps [of _ "[]"] s)
  show "ensure_simulation_function iter_w lk_long heap_arm = Inr [Driver_step crank_arm]"
    by (simp add: ensure_simulation_function_def generate_simulation_function_def
        initial_solved_arm r f compile_loop.simps [of _ "[]"] s)
qed

lemma run_arm: "run_steps [Driver_step crank_arm] 0 heap_arm = (None, heap_arm_0)"
  by (simp add: update_attachment_point_def fmod_def py_trunc_def setattr_location_def
      point_for_time_def crank_arm_def heap_arm_def heap_arm_0_def joint_tip_def)

lemma joint_distance_arm:
  "joint_distance bar_arm 2 3 = Inr 1" "joint_distance bar_long 2 3 = Inr 2"
  by (simp_all add: joint_distance_def origin_distance_def bar_arm_def bar_long_def
      enumerate_eq_zip upt_rec)

lemma heap_arm_0_values:
  "location (heap_arm_0 2) = Some (0, 0)" "location (heap_arm_0 3) = Some (1, 0)"
  "label (heap_arm_0 2) = ''j0''" "label (heap_arm_0 3) = ''j1''"
  "fixed (heap_arm_0 2)" "\<not> fixed (heap_arm_0 3)"
  by (simp_all add: heap_arm_0_def heap_arm_def joint_pivot_def joint_tip_def)

lemma check_arm:
  "check_bars [bar_arm] heap_arm_0 validity_margin_default = None"
  "check_bars [bar_long] heap_arm_0 validity_margin_default =
     Some (InvalidLinkageError_distance 2 ''arm'' ''j0'' ''j1'')"
proof -
  have p: "pairwise_py (joints bar_arm) = [(2, 3)]" "pairwise_py (joints bar_long) = [(2, 3)]"
    by (simp_all add: pairwise_py_def bar_arm_def bar_long_def)
  have l: "bar_label bar_long = ''arm''" by (simp add: bar_long_def)
  show "check_bars [bar_arm] heap_arm_0 validity_margin_default = None"
    by (simp add: p heap_arm_0_values joint_distance_arm distance_def validity_margin_default_def)
  show "check_bars [bar_long] heap_arm_0 validity_margin_default =
     Some (InvalidLinkageError_distance 2 ''arm'' ''j0'' ''j1'')"
    by (simp add: p l heap_arm_0_values joint_distance_arm distance_def validity_margin_default_def)
qed

lemma sim_function_arm:
  "sim_function [bar_arm] [Driver_step crank_arm] validity_margin_default 0 heap_arm =
     (None, heap_arm_0)"
  "sim_function [bar_long] [Driver_step crank_arm] validity_margin_default 0 heap_arm =
     (Some (InvalidLinkageError_distance 2 ''arm'' ''j0'' ''j1''), heap_arm_0)"
  by (simp_all add: sim_function_def run_arm check_arm del: run_steps.simps check_bars.simps)

lemma miss_arm:
  "cache_entry lk_arm \<lfloor>cache_accuraccy lk_arm * 0\<rfloor> = None"
  "cache_entry lk_long \<lfloor>cache_accuraccy lk_long * 0\<rfloor> = None"
  by (simp_all add: cache_entry_def lk_arm_def lk_long_def)

lemma simulate_arm:
  "simulate_to_time iter_w (lk_arm, heap_arm) 0 =
     (None, (lk_arm\<lparr>cache := Some ((\<lambda>_. None)(0 := Some [(3, Some (1, 0))])),
                    simulation_function := Some [Driver_step crank_arm]\<rparr>, heap_arm_0))"
proof -
  have b: "bars lk_arm = [bar_arm]" "cache_dict lk_arm = (\<lambda>_. None)" "cache_accuraccy lk_arm = 10000"
    by (simp_all add: lk_arm_def cache_dict_def)
  have s: "snapshot_of lk_arm heap_arm_0 = [(3, Some (1, 0))]"
    by (simp add: snapshot_of_def lk_arm_def heap_arm_0_values)
  from simulate_to_time_miss [OF miss_arm(1), of iter_w heap_arm] show ?thesis
    by (simp add: ensure_arm sim_function_arm b s)
qed

lemma simulate_long:
  "simulate_to_time iter_w (lk_long, heap_arm) 0 =
     (Some (InvalidLinkageError_distance 2 ''arm'' ''j0'' ''j1''),
      (lk_long\<lparr>cache := Some (\<lambda>_. None), simulation_function := Some [Driver_step crank_arm]\<rparr>,
       heap_arm_0))"
proof -
  have b: "bars lk_long = [bar_long]" "cache_dict lk_long = (\<lambda>_. None)"
    by (simp_all add: lk_long_def cache_dict_def)
  from simulate_to_time_miss [OF miss_arm(2), of iter_w heap_arm] show ?thesis
    by (simp add: ensure_arm sim_function_arm b)
qed

text \<open>
  C2, as claimed for the declared segment length, fails: the constructor of \<^verbatim>\<open>Bar\<close> accepts a
  negative length, and the check compares the Euclidean distance with \<^verbatim>\<open>bar.joint_distance\<close>,
  an absolute value. The bar \<^verbatim>\<open>Bar('arm', [j0, j1], [-1])\<close> on a crank of radius 1 around \<open>j0\<close>
  makes a linkage that the constructor accepts; \<^verbatim>\<open>simulate_to_time(0)\<close> returns with the two
  joints at \<open>(0, 0)\<close> and \<open>(1, 0)\<close>, at distance 1, which is 2 away from the declared length
  \<open>-1\<close>, and no error is raised.
\<close>

theorem simulate_to_time_declared_length_counterexample:
  "Bar ''arm'' [2, 3] [- 1] = Inr bar_back \<and>
   Linkage [bar_back] [2, 3] [crank_arm] heap_arm = Inr lk_back \<and>
   cache_entry lk_back \<lfloor>cache_accuraccy lk_back * 0\<rfloor> = None \<and>
   fst (simulate_to_time iter_w (lk_back, heap_arm) 0) = None \<and>
   location (snd (snd (simulate_to_time iter_w (lk_back, heap_arm) 0)) 2) = Some (0, 0) \<and>
   location (snd (snd (simulate_to_time iter_w (lk_back, heap_arm) 0)) 3) = Some (1, 0) \<and>
   segment_lengths bar_back ! 0 = - 1 \<and>
   distance (0, 0) (1, 0) = 1 \<and>
   validity_margin_default \<le> \<bar>segment_lengths bar_back ! 0 - distance (0, 0) (1, 0)\<bar>"
proof -
  have c: "Bar ''arm'' [2, 3] [- 1] = Inr bar_back"
    by (simp add: Bar_def bar_back_def)
  have v: "validity_check lk_back heap_arm = Inr True"
    by (simp add: validity_check_def lk_back_def bar_back_def crank_arm_def)
  have k: "Linkage [bar_back] [2, 3] [crank_arm] heap_arm = Inr lk_back"
    using v by (simp add: Linkage_def lk_back_def [symmetric])
  have m: "cache_entry lk_back \<lfloor>cache_accuraccy lk_back * 0\<rfloor> = None"
    by (simp add: cache_entry_def lk_back_def)
  have f: "ljoints lk_back = [2, 3]" "drivers lk_back = [crank_arm]"
    "simulation_function lk_back = None" "bars lk_back = [bar_back]"
    "cache_dict lk_back = (\<lambda>_. None)" "cache_accuraccy lk_back = 10000"
    by (simp_all add: lk_back_def cache_dict_def)
  have i: "initial_solved_joints lk_back heap_arm = {2, 3}"
    by (auto simp: initial_solved_joints_def lk_back_def heap_arm_def crank_arm_def
        joint_pivot_def joint_tip_def)
  have r: "candidate_rules iter_w lk_back {2, 3} = []"
    by (simp add: candidate_rules_def lk_back_def iter_w_def)
  have s: "{3, 2} = {2, 3 :: nat}" by auto
  have e: "ensure_simulation_function iter_w lk_back heap_arm = Inr [Driver_step crank_arm]"
    by (simp add: ensure_simulation_function_def generate_simulation_function_def
        i r f compile_loop.simps [of _ "[]"] s)
  have jd: "joint_distance bar_back 2 3 = Inr 1"
    by (simp add: joint_distance_def origin_distance_def bar_back_def enumerate_eq_zip upt_rec)
  have p: "pairwise_py (joints bar_back) = [(2, 3)]"
    by (simp add: pairwise_py_def bar_back_def)
  have d: "distance (0, 0) (1, 0) = 1"
    by (simp add: distance_def)
  have cb: "check_bars [bar_back] heap_arm_0 validity_margin_default = None"
    by (simp add: p heap_arm_0_values jd d validity_margin_default_def)
  have sf: "sim_function [bar_back] [Driver_step crank_arm] validity_margin_default 0 heap_arm =
      (None, heap_arm_0)"
    by (simp add: sim_function_def run_arm cb del: run_steps.simps check_bars.simps)
  have sn: "snapshot_of lk_back heap_arm_0 = [(3, Some (1, 0))]"
    by (simp add: snapshot_of_def lk_back_def heap_arm_0_values)
  from simulate_to_time_miss [OF m, of iter_w heap_arm]
  have sim: "simulate_to_time iter_w (lk_back, heap_arm) 0 =
     (None, (lk_back\<lparr>cache := Some ((\<lambda>_. None)(0 := Some [(3, Some (1, 0))])),
                     simulation_function := Some [Driver_step crank_arm]\<rparr>, heap_arm_0))"
    by (simp add: e sf f sn)
  have l: "segment_lengths bar_back ! 0 = - 1"
    by (simp add: bar_back_def)
  from c k m sim l d show ?thesis
    by (simp add: heap_arm_0_values validity_margin_default_def)
qed

theorem simulate_to_time_distance_check_witness:
  "cache_entry lk_arm \<lfloor>cache_accuraccy lk_arm * 0\<rfloor> = None \<and>
   fst (simulate_to_time iter_w (lk_arm, heap_arm) 0) = None \<and>
   distance_ok bar_arm heap_arm_0 validity_margin_default (2, 3) \<and>
   bar_arm \<in> set (bars lk_arm) \<and> Bar ''arm'' [2, 3] [1] = Inr bar_arm \<and>
   distinct [2, 3 :: nat] \<and> list_all (\<lambda>s. 0 \<le> s) [1 :: real] \<and> Suc 0 < length [2, 3 :: nat] \<and>
   location (heap_arm_0 2) = Some (0, 0) \<and> location (heap_arm_0 3) = Some (1, 0) \<and>
   \<bar>[1] ! 0 - distance (0, 0) (1, 0)\<bar> < validity_margin_default \<and>
   cache_entry lk_long \<lfloor>cache_accuraccy lk_long * 0\<rfloor> = None \<and>
   fst (simulate_to_time iter_w (lk_long, heap_arm) 0) =
     Some (InvalidLinkageError_distance 2 ''arm'' ''j0'' ''j1'') \<and>
   violation bar_long heap_arm_0 validity_margin_default (2, 3)
     (InvalidLinkageError_distance 2 ''arm'' ''j0'' ''j1'') \<and>
   0 \<le> (0 :: real) \<and> (0 :: real) \<le> 1 \<and>
   ensure_simulation_function iter_w lk_long heap_arm = Inr [Driver_step crank_arm] \<and>
   run_steps [Driver_step crank_arm] 0 heap_arm = (None, heap_arm_0) \<and>
   bar_located bar_long heap_arm_0 \<and> bar_long \<in> set (bars lk_long) \<and>
   (2, 3) \<in> set (pairwise_py (joints bar_long)) \<and>
   \<not> distance_ok bar_long heap_arm_0 validity_margin_default (2, 3) \<and>
   snd (snd (simulate_to_time iter_w (lk_long, heap_arm) 0)) = heap_arm_0"
proof -
  have p: "bars lk_arm = [bar_arm]" "pairwise_py (joints bar_arm) = [(2, 3)]"
    "bars lk_long = [bar_long]" "pairwise_py (joints bar_long) = [(2, 3)]"
    by (simp_all add: lk_arm_def lk_long_def bar_arm_def bar_long_def pairwise_py_def)
  have c: "Bar ''arm'' [2, 3] [1] = Inr bar_arm"
    by (simp add: Bar_def bar_arm_def)
  have loc: "bar_located bar_long heap_arm_0"
    by (simp add: bar_located_def bar_long_def heap_arm_0_values)
  have bad: "\<not> distance_ok bar_long heap_arm_0 validity_margin_default (2, 3)"
    by (simp add: distance_ok_def heap_arm_0_values joint_distance_arm distance_def
        validity_margin_default_def)
  from simulate_to_time_distance_check [OF miss_arm(1), of iter_w heap_arm] simulate_arm
  have "\<forall>b\<in>set (bars lk_arm). \<forall>pr\<in>set (pairwise_py (joints b)).
          distance_ok b heap_arm_0 validity_margin_default pr"
    by fastforce
  then have 1: "distance_ok bar_arm heap_arm_0 validity_margin_default (2, 3)"
    by (simp add: p)
  from simulate_to_time_distance_check [where self = lk_arm and t = 0 and iter = iter_w and
      heap = heap_arm and c = bar_arm and lbl' = "''arm''" and js = "[2, 3]" and segs = "[1]" and
      i = 0, OF miss_arm(1)] simulate_arm c p(1)
  have "\<exists>p1 p2. location (heap_arm_0 ([2, 3] ! 0)) = Some p1 \<and>
          location (heap_arm_0 ([2, 3] ! Suc 0)) = Some p2 \<and>
          \<bar>[1] ! 0 - distance p1 p2\<bar> < validity_margin_default"
    by fastforce
  then have 2: "\<bar>[1] ! 0 - distance (0, 0) (1, 0)\<bar> < validity_margin_default"
    by (simp add: heap_arm_0_values)
  from simulate_to_time_distance_check [OF miss_arm(2), of iter_w heap_arm] simulate_long
  have "\<exists>b\<in>set (bars lk_long). \<exists>pr\<in>set (pairwise_py (joints b)).
          violation b heap_arm_0 validity_margin_default pr
            (InvalidLinkageError_distance 2 ''arm'' ''j0'' ''j1'')"
    by fastforce
  then have 3: "violation bar_long heap_arm_0 validity_margin_default (2, 3)
     (InvalidLinkageError_distance 2 ''arm'' ''j0'' ''j1'')"
    by (simp add: p)
  from simulate_to_time_distance_check [where self = lk_long and t = 0 and iter = iter_w and
      heap = heap_arm and fl = "[Driver_step crank_arm]" and heap' = heap_arm_0 and
      b = bar_long and pr = "(2, 3)", OF miss_arm(2)] ensure_arm(2) run_arm loc bad p
  have 4: "\<exists>e self'. simulate_to_time iter_w (lk_long, heap_arm) 0 = (Some e, (self', heap_arm_0))"
    by (simp del: run_steps.simps) blast
  then have 5: "snd (snd (simulate_to_time iter_w (lk_long, heap_arm) 0)) = heap_arm_0"
    by auto
  from 1 2 3 5 c loc bad p miss_arm simulate_arm simulate_long ensure_arm(2) run_arm
    heap_arm_0_values show ?thesis
    by (simp del: run_steps.simps)
qed

theorem simulate_to_time_failure_not_cached_witness:
  "cache_entry lk_long \<lfloor>cache_accuraccy lk_long * 0\<rfloor> = None \<and>
   fst (simulate_to_time iter_w (lk_long, heap_arm) 0) =
     Some (InvalidLinkageError_distance 2 ''arm'' ''j0'' ''j1'') \<and>
   cache_entry (fst (snd (simulate_to_time iter_w (lk_long, heap_arm) 0)))
     \<lfloor>cache_accuraccy (fst (snd (simulate_to_time iter_w (lk_long, heap_arm) 0))) * 0\<rfloor> = None \<and>
   fst (simulate_to_time iter_w (lk_arm, heap_arm) 0) = None \<and>
   cache_entry (fst (snd (simulate_to_time iter_w (lk_arm, heap_arm) 0)))
     \<lfloor>cache_accuraccy (fst (snd (simulate_to_time iter_w (lk_arm, heap_arm) 0))) * 0\<rfloor> =
     Some [(3, Some (1, 0))]"
proof -
  have s: "snapshot_of lk_arm heap_arm_0 = [(3, Some (1, 0))]"
    by (simp add: snapshot_of_def lk_arm_def heap_arm_0_values)
  from simulate_to_time_failure_not_cached [OF miss_arm(2), of iter_w heap_arm] simulate_long
  have 1: "cache_entry (fst (snd (simulate_to_time iter_w (lk_long, heap_arm) 0)))
     \<lfloor>cache_accuraccy (fst (snd (simulate_to_time iter_w (lk_long, heap_arm) 0))) * 0\<rfloor> = None"
    by fastforce
  from simulate_to_time_failure_not_cached [OF miss_arm(1), of iter_w heap_arm] simulate_arm
  have 2: "cache_entry (fst (snd (simulate_to_time iter_w (lk_arm, heap_arm) 0)))
     \<lfloor>cache_accuraccy (fst (snd (simulate_to_time iter_w (lk_arm, heap_arm) 0))) * 0\<rfloor> =
     Some (snapshot_of lk_arm heap_arm_0)"
    by fastforce
  from 1 2 s miss_arm simulate_arm simulate_long show ?thesis by simp
qed

section \<open>Recomputation after invalidation\<close>

lemma sqrt_ratio: "sqrt (1 + (200 / 9999)\<^sup>2) = 10001 / 9999"
proof -
  have "1 + (200 / 9999 :: real)\<^sup>2 = (10001 / 9999)\<^sup>2"
    by (simp add: power2_eq_square)
  then show ?thesis by (simp del: power_divide)
qed

lemma cos_sin_small:
  "cos (arctan (200 / 9999)) = 9999 / 10001" "sin (arctan (200 / 9999)) = 200 / 10001"
  by (simp_all add: cos_arctan sin_arctan sqrt_ratio)

lemma ext_stale: "line_extension (1 / 10000, - (1 / 50)) (1, 0) 2 = (29999 / 10001, 400 / 10001)"
proof -
  have a: "line_angle (1 / 10000, - (1 / 50)) (1, 0) = arctan (200 / 9999)"
    by (simp add: line_angle_def atan2_def)
  show ?thesis
    by (simp add: line_extension_def a cos_sin_small Let_def)
qed

lemma ext_fresh: "line_extension (0, 0) (1, 0) 2 = (3, 0)"
  by (simp add: line_extension_def line_angle_def atan2_def)

lemma ext_back: "line_extension (1, 0) (2, 0) (- 2) = (0, 0)"
  by (simp add: line_extension_def line_angle_def atan2_def)

lemma dist_unit: "distance (0, 0) (1, 0) = 1" "distance (1, 0) (2, 0) = 1" "distance (2, 0) (3, 0) = 1"
  by (simp_all add: distance_def)

lemma dist_stale: "\<bar>1 - distance (2, 0) (29999 / 10001, 400 / 10001)\<bar> < 1 / 1000"
proof -
  let ?q = "100100009 / 100020001 :: real"
  have d: "distance (2, 0) (29999 / 10001, 400 / 10001) = sqrt ?q"
    by (simp add: distance_def power2_eq_square)
  have 1: "1 \<le> sqrt ?q" by simp
  have "sqrt ?q < 1001 / 1000"
    by (rule real_less_lsqrt) (simp_all add: power2_eq_square)
  with 1 d show ?thesis by simp
qed


lemma od_rod:
  "origin_distance bar_rod 3 = Inr 0" "origin_distance bar_rod 4 = Inr 1"
  "origin_distance bar_rod 5 = Inr 2" "origin_distance bar_rod 2 = Inr 3"
  by (simp_all add: origin_distance_def bar_rod_def enumerate_eq_zip upt_rec)

lemma jd_rod:
  "joint_distance bar_rod 3 4 = Inr 1" "joint_distance bar_rod 4 5 = Inr 1"
  "joint_distance bar_rod 5 2 = Inr 1"
  by (simp_all add: joint_distance_def od_rod)

lemma rules_rod:
  "candidate_rules iter_w lk_rod {4, 5} =
     [({3, 4}, 2, Extension_step 2 bar_rod [3, 4, 5]),
      ({3, 5}, 2, Extension_step 2 bar_rod [3, 4, 5]),
      ({4, 5}, 2, Extension_step 2 bar_rod [3, 4, 5]),
      ({4, 5}, 3, Extension_step 3 bar_rod [4, 5, 2]),
      ({4, 2}, 3, Extension_step 3 bar_rod [4, 5, 2]),
      ({5, 2}, 3, Extension_step 3 bar_rod [4, 5, 2])]"
proof -
  have it: "iter_w (set (ljoints lk_rod) - {4, 5}) = [2, 3]"
    by (simp add: iter_w_def lk_rod_def)
  have bc: "bars_connected_to_joint lk_rod 2 = [bar_rod]" "bars_connected_to_joint lk_rod 3 = [bar_rod]"
    by (simp_all add: bars_connected_to_joint_def lk_rod_def bar_rod_def)
  have j: "joints bar_rod = [3, 4, 5, 2]" by (simp add: bar_rod_def)
  show ?thesis
    by (simp add: candidate_rules_def it bc extension_rules_def intersection_rules_def j
        solver_for_joint_on_bar_given_joints_def Let_def)
qed


lemma round_rod:
  "solve_round (candidate_rules iter_w lk_rod {4, 5}) {4, 5} [] [] False =
     ([({3, 4}, 2, Extension_step 2 bar_rod [3, 4, 5]),
       ({3, 5}, 2, Extension_step 2 bar_rod [3, 4, 5]),
       ({4, 2}, 3, Extension_step 3 bar_rod [4, 5, 2]),
       ({5, 2}, 3, Extension_step 3 bar_rod [4, 5, 2])],
      {3, 2, 4, 5}, fl_rod, True)"
  by (simp add: rules_rod fl_rod_def)

lemma initial_rod:
  "initial_solved_joints lk_rod heap_rod = {4, 5}"
  "initial_solved_joints lk_rod heap_rod_1 = {4, 5}"
  by (auto simp: initial_solved_joints_def lk_rod_def heap_rod_def heap_rod_1_def
      joint_J_def joint_S_def joint_A_def joint_B_def)

lemma generate_rod:
  "generate_simulation_function iter_w lk_rod heap_rod = Inr fl_rod"
  "generate_simulation_function iter_w lk_rod heap_rod_1 = Inr fl_rod"
proof -
  have f: "ljoints lk_rod = [2, 3, 4, 5]" "drivers lk_rod = []"
    by (simp_all add: lk_rod_def)
  have e: "{3, 2, 4, 5} = {2, 3, 4, 5 :: nat}" by auto
  have "compile_loop {2, 3, 4, 5} (candidate_rules iter_w lk_rod {4, 5}) {4, 5} [] = Inr fl_rod"
    by (subst compile_loop.simps) (simp add: round_rod e del: solve_round.simps)
  then show "generate_simulation_function iter_w lk_rod heap_rod = Inr fl_rod"
    "generate_simulation_function iter_w lk_rod heap_rod_1 = Inr fl_rod"
    by (simp_all add: generate_simulation_function_def initial_rod f)
qed

lemma heap_rod_values:
  "heap_rod 2 = joint_J" "heap_rod 3 = joint_S" "heap_rod 4 = joint_A" "heap_rod 5 = joint_B"
  by (simp_all add: heap_rod_def)

lemma run_rod_1: "run_steps fl_rod 0 heap_rod = (None, heap_rod_1)"
proof -
  have 1: "run_step (Extension_step 2 bar_rod [3, 4, 5]) 0 heap_rod =
             Inr (heap_rod(2 := joint_J\<lparr>location := Some (29999 / 10001, 400 / 10001)\<rparr>))"
    by (simp add: od_rod heap_rod_values joint_S_def joint_A_def joint_J_def
        set_location_def setattr_location_def ext_stale)
  have 2: "run_step (Extension_step 3 bar_rod [4, 5, 2]) 0
             (heap_rod(2 := joint_J\<lparr>location := Some (29999 / 10001, 400 / 10001)\<rparr>)) =
             Inr heap_rod_1"
    by (simp add: od_rod heap_rod_values joint_S_def joint_A_def joint_B_def
        set_location_def setattr_location_def ext_back heap_rod_1_def)
  show ?thesis
    by (simp add: fl_rod_def 1 2 del: run_step.simps)
qed

lemma heap_rod_1_values:
  "heap_rod_1 2 = joint_J\<lparr>location := Some (29999 / 10001, 400 / 10001)\<rparr>"
  "heap_rod_1 3 = joint_S\<lparr>location := Some (0, 0)\<rparr>"
  "heap_rod_1 4 = joint_A" "heap_rod_1 5 = joint_B"
  by (simp_all add: heap_rod_1_def heap_rod_def)

lemma heap_rod_2_values:
  "heap_rod_2 2 = joint_J\<lparr>location := Some (3, 0)\<rparr>"
  "heap_rod_2 3 = joint_S\<lparr>location := Some (0, 0)\<rparr>"
  "heap_rod_2 4 = joint_A" "heap_rod_2 5 = joint_B"
  by (simp_all add: heap_rod_2_def heap_rod_def)

lemma heap_rod_2_eq:
  "heap_rod_1(2 := joint_J\<lparr>location := Some (3, 0)\<rparr>, 3 := joint_S\<lparr>location := Some (0, 0)\<rparr>) =
   heap_rod_2"
  by (auto simp: fun_eq_iff heap_rod_1_def heap_rod_2_def)

lemma run_rod_2: "run_steps fl_rod 0 heap_rod_1 = (None, heap_rod_2)"
proof -
  have 1: "run_step (Extension_step 2 bar_rod [3, 4, 5]) 0 heap_rod_1 =
             Inr (heap_rod_1(2 := joint_J\<lparr>location := Some (3, 0)\<rparr>))"
    by (simp add: od_rod heap_rod_1_values joint_S_def joint_A_def joint_J_def
        set_location_def setattr_location_def ext_fresh)
  have 2: "run_step (Extension_step 3 bar_rod [4, 5, 2]) 0
             (heap_rod_1(2 := joint_J\<lparr>location := Some (3, 0)\<rparr>)) =
           Inr (heap_rod_1(2 := joint_J\<lparr>location := Some (3, 0)\<rparr>,
                           3 := joint_S\<lparr>location := Some (0, 0)\<rparr>))"
    by (simp add: od_rod heap_rod_1_values joint_S_def joint_A_def joint_B_def
        set_location_def setattr_location_def ext_back)
  show ?thesis
    by (simp add: fl_rod_def 1 2 heap_rod_2_eq del: run_step.simps)
qed

lemma check_rod:
  "check_bars [bar_rod] heap_rod_1 validity_margin_default = None"
  "check_bars [bar_rod] heap_rod_2 validity_margin_default = None"
proof -
  have p: "pairwise_py (joints bar_rod) = [(3, 4), (4, 5), (5, 2)]"
    by (simp add: pairwise_py_def bar_rod_def)
  show "check_bars [bar_rod] heap_rod_1 validity_margin_default = None"
    using dist_stale
    by (simp add: p heap_rod_1_values jd_rod joint_J_def joint_S_def joint_A_def joint_B_def
        dist_unit validity_margin_default_def)
  show "check_bars [bar_rod] heap_rod_2 validity_margin_default = None"
    by (simp add: p heap_rod_2_values jd_rod joint_J_def joint_S_def joint_A_def joint_B_def
        dist_unit validity_margin_default_def)
qed

lemma sim_function_rod:
  "sim_function [bar_rod] fl_rod validity_margin_default 0 heap_rod = (None, heap_rod_1)"
  "sim_function [bar_rod] fl_rod validity_margin_default 0 heap_rod_1 = (None, heap_rod_2)"
  by (simp_all add: sim_function_def run_rod_1 run_rod_2 check_rod
      del: run_steps.simps check_bars.simps)


lemma generate_simulation_function_topology:
  "bars s1 = bars s2 \<Longrightarrow> ljoints s1 = ljoints s2 \<Longrightarrow> drivers s1 = drivers s2 \<Longrightarrow>
   generate_simulation_function iter s1 heap = generate_simulation_function iter s2 heap"
  by (simp add: generate_simulation_function_def initial_solved_joints_def candidate_rules_def
      bars_connected_to_joint_def)

lemma simulate_rod_1:
  "simulate_to_time iter_w (lk_rod, heap_rod) 0 = (None, (lk_rod_1, heap_rod_1))"
proof -
  have m: "cache_entry lk_rod \<lfloor>cache_accuraccy lk_rod * 0\<rfloor> = None"
    by (simp add: cache_entry_def lk_rod_def)
  have e: "ensure_simulation_function iter_w lk_rod heap_rod = Inr fl_rod"
    using generate_rod(1) by (simp add: ensure_simulation_function_def lk_rod_def)
  have b: "bars lk_rod = [bar_rod]" "cache_dict lk_rod = (\<lambda>_. None)"
    by (simp_all add: lk_rod_def cache_dict_def)
  have s: "snapshot_of lk_rod heap_rod_1 =
      [(2, Some (29999 / 10001, 400 / 10001)), (3, Some (0, 0))]"
    by (simp add: snapshot_of_def lk_rod_def heap_rod_1_values joint_J_def joint_S_def
        joint_A_def joint_B_def)
  from simulate_to_time_miss [OF m, of iter_w heap_rod] show ?thesis
    by (simp add: e b s sim_function_rod lk_rod_1_def)
qed

lemma simulate_rod_2:
  "simulate_to_time iter_w (invalidate_caches lk_rod_1, heap_rod_1) 0 = (None, (lk_rod_2, heap_rod_2))"
proof -
  let ?self = "invalidate_caches lk_rod_1"
  have m: "cache_entry ?self \<lfloor>cache_accuraccy ?self * 0\<rfloor> = None"
    by (simp add: cache_entry_def invalidate_caches_def)
  have "generate_simulation_function iter_w ?self heap_rod_1 =
        generate_simulation_function iter_w lk_rod heap_rod_1"
    by (rule generate_simulation_function_topology)
      (simp_all add: invalidate_caches_def lk_rod_1_def)
  then have e: "ensure_simulation_function iter_w ?self heap_rod_1 = Inr fl_rod"
    by (simp add: ensure_simulation_function_def generate_rod invalidate_caches_def)
  have b: "bars ?self = [bar_rod]" "cache_dict ?self = (\<lambda>_. None)"
    by (simp_all add: lk_rod_def lk_rod_1_def cache_dict_def invalidate_caches_def)
  have s: "snapshot_of ?self heap_rod_2 = [(2, Some (3, 0)), (3, Some (0, 0))]"
    by (simp add: snapshot_of_def lk_rod_def lk_rod_1_def invalidate_caches_def heap_rod_2_values
        joint_J_def joint_S_def joint_A_def joint_B_def)
  from simulate_to_time_miss [OF m, of iter_w heap_rod_1] show ?thesis
    by (simp add: e b s sim_function_rod)
      (simp add: invalidate_caches_def lk_rod_1_def lk_rod_2_def lk_rod_def)
qed

text \<open>
  C3. A second call for the same bucket restores the snapshot and leaves the state as the
  first call left it (lemma \<open>simulate_to_time_cache_hit\<close>). The recomputation after
  \<^verbatim>\<open>invalidate_caches\<close> is claimed to reproduce the locations of the first call; on the bar
  \<open>S, A, B, J\<close> it does not. The first call at time 0 returns with \<open>J\<close> at
  \<open>(29999/10001, 400/10001)\<close>; after \<^verbatim>\<open>invalidate_caches\<close> the call at time 0 returns with
  \<open>J\<close> at \<open>(3, 0)\<close>. The function that solves \<open>J\<close> is activated by the pair \<open>{A, B}\<close>, but
  it was built from \<^verbatim>\<open>other_joints\<close> \<open>= [S, A, B]\<close> and extends the line from \<open>S\<close> through
  \<open>A\<close>; \<open>S\<close> is solved after \<open>J\<close>, so the first call reads the location \<open>S\<close> had before
  the call and the second the location the first call gave it. Both results pass the
  distance check.
\<close>

theorem simulate_to_time_recomputation_differs:
  "Bar ''rod'' [3, 4, 5, 2] [1, 1, 1] = Inr bar_rod \<and>
   Linkage [bar_rod] [2, 3, 4, 5] [] heap_rod = Inr lk_rod \<and>
   simulate_to_time iter_w (lk_rod, heap_rod) 0 = (None, (lk_rod_1, heap_rod_1)) \<and>
   location (heap_rod_1 2) = Some (29999 / 10001, 400 / 10001) \<and>
   simulate_to_time iter_w (invalidate_caches lk_rod_1, heap_rod_1) 0 =
     (None, (lk_rod_2, heap_rod_2)) \<and>
   location (heap_rod_2 2) = Some (3, 0)"
proof -
  have "Bar ''rod'' [3, 4, 5, 2] [1, 1, 1] = Inr bar_rod"
    by (simp add: Bar_def bar_rod_def)
  moreover have "Linkage [bar_rod] [2, 3, 4, 5] [] heap_rod = Inr lk_rod"
    by (simp add: Linkage_def validity_check_def lk_rod_def bar_rod_def)
  ultimately show ?thesis
    by (simp add: simulate_rod_1 simulate_rod_2 heap_rod_1_values heap_rod_2_values joint_J_def)
qed


lemma restore_snapshot_same:
  "(\<forall>x\<in>set snap. \<not> fixed (heap (fst x)) \<and> location (heap (fst x)) = snd x) \<Longrightarrow>
   restore_snapshot snap heap = (None, heap)"
proof (induction snap)
  case Nil
  then show ?case by simp
next
  case (Cons x snap)
  obtain j l where x: "x = (j, l)" by (cases x)
  with Cons.prems have "\<not> fixed (heap j)" "location (heap j) = l" by auto
  then have "set_location (heap j) l None = Inr (heap j)"
    by (auto simp: set_location_def setattr_location_def)
  with Cons x show ?case by simp
qed

lemma simulate_to_time_cache_hit:
  assumes "simulate_to_time iter (self, heap) t1 = (None, (self1, heap1))"
    and "cache_entry self \<lfloor>cache_accuraccy self * t1\<rfloor> = None"
    and "0 \<le> t2" and "t2 \<le> 1"
    and "\<lfloor>cache_accuraccy self * t2\<rfloor> = \<lfloor>cache_accuraccy self * t1\<rfloor>"
  shows "simulate_to_time iter (self1, heap1) t2 = (None, (self1, heap1))"
proof -
  from assms(1) simulate_to_time_out_of_range [of t1 iter self heap]
  have t: "0 \<le> t1" "t1 \<le> 1" by auto
  from assms(1) simulate_to_time_miss [OF assms(2) t, of iter heap]
  obtain fl where self1: "self1 = self\<lparr>cache := Some ((cache_dict self)
        (\<lfloor>cache_accuraccy self * t1\<rfloor> := Some (snapshot_of self heap1))),
        simulation_function := Some fl\<rparr>"
    by (auto split: sum.splits option.splits prod.splits)
  then have e: "cache_entry self1 \<lfloor>cache_accuraccy self1 * t2\<rfloor> = Some (snapshot_of self heap1)"
    using assms(5) by (simp add: cache_entry_def)
  have "restore_snapshot (snapshot_of self heap1) heap1 = (None, heap1)"
    by (rule restore_snapshot_same) (auto simp: snapshot_of_def)
  with e assms(3,4) show ?thesis
    by (simp add: simulate_to_time_def Let_def)
qed

section \<open>Copying a linkage\<close>

lemma copy_joints_lists:
  "copy_joints xs indic mapping js w = (mapping', js', w') \<Longrightarrow> w_lists w' = w_lists w"
  by (induction xs arbitrary: mapping js w) (auto simp: Let_def)

lemma copy_drivers_lists:
  "copy_drivers xs mapping ds w = (r, ds', w') \<Longrightarrow> w_lists w' = w_lists w"
  by (induction xs arbitrary: ds w) (auto split: option.splits)


lemma copy_lists:
  assumes "copy iter diter self arg shared_drivers indic w = (res, w')"
  shows "w_lists w' = (w_lists w)
           ((case arg of None \<Rightarrow> copy_default_shared_joints | Some r \<Rightarrow> r) :=
              w_lists w (case arg of None \<Rightarrow> copy_default_shared_joints | Some r \<Rightarrow> r) @
              map attachment_joint shared_drivers)"
proof -
  define r where "r = (case arg of None \<Rightarrow> copy_default_shared_joints | Some r \<Rightarrow> r)"
  define w1 where "w1 = w\<lparr>w_lists := (w_lists w)(r := w_lists w r @ map attachment_joint shared_drivers)\<rparr>"
  define cj where "cj = copy_joints (iter (set (ljoints self) - set (w_lists w1 r)))
      indic (foldl (\<lambda>m j. m(j := Some j)) (\<lambda>_. None) (w_lists w1 r)) (w_lists w1 r) w1"
  obtain mapping js w2 where cj: "cj = (mapping, js, w2)"
    by (cases cj) auto
  define cd where "cd = copy_drivers (diter (set (drivers self) - set shared_drivers)) mapping
      shared_drivers w2"
  obtain e ds w3 where cd: "cd = (e, ds, w3)"
    by (cases cd) auto
  have "copy iter diter self arg shared_drivers indic w =
      (case e of Some x \<Rightarrow> (Inl x, w3)
       | None \<Rightarrow> (Linkage (map (remap_bar mapping) (bars self)) js ds (w_heap w3), w3))"
    unfolding copy_def Let_def r_def [symmetric] w1_def [symmetric] cj_def [symmetric] cj
    by (simp add: cd_def [symmetric] cd split: option.splits)
  with assms have "w' = w3" by (simp split: option.splits)
  moreover from cj have "w_lists w2 = w_lists w1"
    unfolding cj_def by (rule copy_joints_lists)
  moreover from cd have "w_lists w3 = w_lists w2"
    unfolding cd_def by (rule copy_drivers_lists)
  ultimately show ?thesis by (simp add: w1_def r_def)
qed


lemma copy_arm:
  "fst (copy iter_w diter_w lk_arm None [] ''_a'' world_arm) =
     Inr \<lparr>bars = [\<lparr>bar_label = ''arm'', joints = [10, 11], segment_lengths = [1]\<rparr>],
          ljoints = [10, 11],
          drivers = [crank_arm\<lparr>drv_id := 10, attachment_joint := 11\<rparr>],
          cache = Some (\<lambda>_. None), cache_accuraccy = 10000, simulation_function = None\<rparr>"
proof -
  have it: "iter_w {2, 3} = [2, 3]"
    by (simp add: iter_w_def)
  have dit: "diter_w {crank_arm} = [crank_arm]"
    by (simp add: diter_w_def)
  have a: "attachment_joint crank_arm = 3" by (simp add: crank_arm_def)
  show ?thesis
    by (simp add: copy_def copy_default_shared_joints_def world_arm_def it dit Let_def a
        lk_arm_def remap_bar_def bar_arm_def Linkage_def validity_check_def)
qed

text \<open>
  C10. \<^verbatim>\<open>copy\<close> appends the attachment joint of every shared driver to the list object it is
  given as \<^verbatim>\<open>shared_joints\<close>: after the call that very list holds its old elements followed
  by those joints, whatever the call returns or raises, and no other list has changed.
  Without the argument the list is the default object, which keeps the appended joints:
  after two calls it holds the joints of the first call's shared drivers followed by those
  of the second.
\<close>

theorem copy_extends_shared_joints:
  "(copy iter diter self (Some r) shared_drivers indic w = (res, w') \<longrightarrow>
      w_lists w' r = w_lists w r @ map attachment_joint shared_drivers \<and>
      (\<forall>r'. r' \<noteq> r \<longrightarrow> w_lists w' r' = w_lists w r')) \<and>
   (copy iter diter self None shared_drivers indic w = (res, w') \<and>
    copy iter diter self2 None shared_drivers2 indic2 w' = (res2, w'') \<longrightarrow>
      w_lists w' copy_default_shared_joints =
        w_lists w copy_default_shared_joints @ map attachment_joint shared_drivers \<and>
      w_lists w'' copy_default_shared_joints =
        w_lists w copy_default_shared_joints @ map attachment_joint shared_drivers @
        map attachment_joint shared_drivers2)"
proof -
  have 1: "w_lists w' r = w_lists w r @ map attachment_joint shared_drivers \<and>
      (\<forall>r'. r' \<noteq> r \<longrightarrow> w_lists w' r' = w_lists w r')"
    if "copy iter diter self (Some r) shared_drivers indic w = (res, w')"
    using copy_lists [OF that] by simp
  have 2: "w_lists w' copy_default_shared_joints =
        w_lists w copy_default_shared_joints @ map attachment_joint shared_drivers"
    if "copy iter diter self None shared_drivers indic w = (res, w')"
    using copy_lists [OF that] by simp
  have 3: "w_lists w'' copy_default_shared_joints =
        w_lists w' copy_default_shared_joints @ map attachment_joint shared_drivers2"
    if "copy iter diter self2 None shared_drivers2 indic2 w' = (res2, w'')"
    using copy_lists [OF that] by simp
  from 1 2 3 show ?thesis by simp
qed


theorem copy_extends_shared_joints_witness:
  "w_lists world_arm_3 7 = [3] \<and>
   w_lists world_arm_1 copy_default_shared_joints = [3] \<and>
   w_lists world_arm_2 copy_default_shared_joints = [3, 3]"
proof -
  have e1: "copy iter_w diter_w lk_arm None [crank_arm] ''_a'' world_arm =
      (fst (copy iter_w diter_w lk_arm None [crank_arm] ''_a'' world_arm), world_arm_1)"
    unfolding world_arm_1_def by (rule prod.collapse [symmetric])
  have e2: "copy iter_w diter_w lk_arm None [crank_arm] ''_b'' world_arm_1 =
      (fst (copy iter_w diter_w lk_arm None [crank_arm] ''_b'' world_arm_1), world_arm_2)"
    unfolding world_arm_2_def by (rule prod.collapse [symmetric])
  have e3: "copy iter_w diter_w lk_arm (Some 7) [crank_arm] ''_c'' world_arm =
      (fst (copy iter_w diter_w lk_arm (Some 7) [crank_arm] ''_c'' world_arm), world_arm_3)"
    unfolding world_arm_3_def by (rule prod.collapse [symmetric])
  have v: "w_lists world_arm 7 = []" "w_lists world_arm copy_default_shared_joints = []"
    "map attachment_joint [crank_arm] = [3]"
    by (simp_all add: world_arm_def crank_arm_def)
  from copy_extends_shared_joints [THEN conjunct1, THEN mp, OF e3] v
  have 1: "w_lists world_arm_3 7 = [3]" by simp
  from copy_extends_shared_joints [THEN conjunct2, THEN mp, OF conjI, OF e1 e2] v
  have 2: "w_lists world_arm_1 copy_default_shared_joints = [3] \<and>
           w_lists world_arm_2 copy_default_shared_joints = [3, 3]"
    by simp
  from 1 2 show ?thesis by simp
qed

end
